theory Spec2Isabelle
  imports Complex_Main "HOL-Library.AList"
begin

section \<open>Data model of radar.py\<close>

text \<open>
  Python floats are modelled as exact reals, Python ints as \<open>int\<close>.  A Python dict whose
  keys may be absent is a record of \<open>option\<close> fields (\<open>None\<close>: key absent).  Reading an
  absent key raises \<open>KeyError\<close>; a float division by zero raises \<open>ZeroDivisionError\<close>.
  An exception does not roll back the mutations made before it, so every operation
  returns the error (if any) together with the state reached.
\<close>

datatype py_error = KeyError | ZeroDivisionError

text \<open>The global dict \<open>situation\<close> (radar.py line 74).\<close>

record situation =
  was_changed :: bool
  connected :: bool
  gps_active :: bool
  course :: int
  own_altitude :: real
  latitude :: real
  longitude :: real
  RadarRange :: real
  RadarLimits :: real

text \<open>
  One entry of \<open>all_ac\<close>: the per-aircraft dict.  The keys \<open>x\<close> and \<open>y\<close> of the source
  are the fields \<open>ac_x\<close> and \<open>ac_y\<close>.
\<close>

record track =
  gps_distance :: "real option"
  was_spoken :: "bool option"
  last_contact_timestamp :: "real option"
  height :: "int option"
  nspeed :: "real option"
  vspeed :: "real option"
  circradius :: "int option"
  arcposition :: "int option"
  direction :: "real option"
  ac_x :: "int option"
  ac_y :: "int option"
  nspeed_length :: "int option"

text \<open>
  A decoded radar-feed message (\<open>json.loads\<close>): every key may be absent.  The field
  \<open>msg_K\<close> is the JSON key \<open>K\<close>.
\<close>

record traffic_msg =
  msg_RadarRange :: "real option"
  msg_RadarLimits :: "real option"
  msg_Icao_addr :: "int option"
  msg_Age :: "real option"
  msg_AgeLastAlt :: "real option"
  msg_Alt :: "real option"
  msg_Speed_valid :: "bool option"
  msg_Speed :: "real option"
  msg_Vvel :: "real option"
  msg_Position_valid :: "bool option"
  msg_Lat :: "real option"
  msg_Lng :: "real option"
  msg_Track :: "real option"
  msg_DistanceEstimated :: "real option"

text \<open>
  The module globals that \<open>new_traffic\<close> and the cutoff sweep read or write.  \<open>all_ac\<close>
  is an insertion-ordered dict: an association list with \<open>AList.update\<close> (replace in
  place, or append) and \<open>AList.delete\<close>.
\<close>

record world =
  situation :: situation
  all_ac :: "(int \<times> track) list"
  aircraft_changed :: bool
  last_arcposition :: int
  max_pixel :: real
  zerox :: real
  zeroy :: real

definition RADAR_CUTOFF :: real where
  "RADAR_CUTOFF = 29"

definition ARCPOSITION_EXCLUDE_FROM :: int where
  "ARCPOSITION_EXCLUDE_FROM = 130"

definition ARCPOSITION_EXCLUDE_TO :: int where
  "ARCPOSITION_EXCLUDE_TO = 230"

definition SPEED_ARROW_TIME :: real where
  "SPEED_ARROW_TIME = 60"

section \<open>Python built-ins\<close>

text \<open>\<open>round(v)\<close> of one argument: to the nearest integer, a tie to the even one.\<close>

definition py_round :: "real \<Rightarrow> int" where
  "py_round v =
     (let f = \<lfloor>v\<rfloor>; d = v - of_int f
      in if d < 1 / 2 then f else if 1 / 2 < d then f + 1
         else if even f then f else f + 1)"

text \<open>\<open>math.radians\<close> and \<open>math.degrees\<close>.\<close>

definition radians :: "real \<Rightarrow> real" where
  "radians a = a * pi / 180"

definition degrees :: "real \<Rightarrow> real" where
  "degrees a = a * 180 / pi"

text \<open>\<open>str\<close> of an int.\<close>

fun str_nat :: "nat \<Rightarrow> string" where
  "str_nat n =
     (if n < 10 then [''0123456789'' ! n]
      else str_nat (n div 10) @ [''0123456789'' ! (n mod 10)])"

declare str_nat.simps [simp del]

definition str_int :: "int \<Rightarrow> string" where
  "str_int i = (if i < 0 then ''-'' @ str_nat (nat (- i)) else str_nat (nat i))"

section \<open>Geometry\<close>

text \<open>\<open>radians_rel\<close> (line 129).\<close>

definition radians_rel :: "real \<Rightarrow> real" where
  "radians_rel angle =
     (let a1 = (if angle > 180 then angle - 360 else angle);
          a2 = (if a1 \<le> - 180 then a1 + 360 else a1)
      in a2 * pi / 180)"

text \<open>\<open>calc_gps_distance\<close> (line 137); the global \<open>situation\<close> is a parameter.\<close>

definition calc_gps_distance :: "situation \<Rightarrow> real \<Rightarrow> real \<Rightarrow> real \<times> real" where
  "calc_gps_distance sit lat lng =
     (let radius_earth = 6371008.8;
          avglat = radians_rel ((latitude sit + lat) / 2);
          distlat = (radians_rel (lat - latitude sit) * radius_earth) / 1852;
          distlng = ((radians_rel (lng - longitude sit) * radius_earth) / 1852) * \<bar>cos avglat\<bar>;
          distradius = sqrt ((distlat * distlat) + (distlng * distlng));
          angle = (if distlat < 0 then degrees (pi - arctan (distlng / (- distlat)))
                   else if distlat > 0 then degrees (- arctan (distlng / (- distlat)))
                   else 0)
      in (distradius, angle))"

section \<open>Voice alerts\<close>

text \<open>
  \<open>speaktraffic\<close> (line 152) builds the text handed to \<open>radarbluez.speak\<close>; the model
  returns that text.  The parameter \<open>direction\<close> is \<open>dir\<close> here; the test
  \<open>if direction:\<close> is false for \<open>None\<close> and for \<open>0\<close>.
\<close>

definition speaktraffic :: "int \<Rightarrow> int option \<Rightarrow> string" where
  "speaktraffic hdiff dir =
     (let feet = hdiff * 100;
          sign = (if hdiff < 0 then ''minus'' else ''plus'');
          txt = ''Traffic '';
          txt = (case dir of
                   None \<Rightarrow> txt
                 | Some d \<Rightarrow> if d \<noteq> 0 then txt @ str_int d @ '' o'' @ [CHR 0x27] @ ''clock '' else txt)
      in txt @ sign @ '' '' @ str_int \<bar>feet\<bar> @ '' feet'')"

text \<open>The clock position of lines 227 to 231.\<close>

definition oclock_of :: "real \<Rightarrow> int" where
  "oclock_of res_angle =
     (let oclock = py_round (res_angle / 30);
          oclock = (if oclock \<le> 0 then oclock + 12 else oclock);
          oclock = (if oclock > 12 then oclock - 12 else oclock)
      in oclock)"

text \<open>The advance of the rotating pointer \<open>last_arcposition\<close> (lines 255 to 257).\<close>

definition next_arcposition :: "int \<Rightarrow> int" where
  "next_arcposition p =
     (let p1 = (p + 210) mod 360
      in if ARCPOSITION_EXCLUDE_TO \<ge> p1 \<and> p1 \<ge> ARCPOSITION_EXCLUDE_FROM
         then (p1 + 210) mod 360 else p1)"

section \<open>Traffic ingest: \<open>new_traffic\<close>\<close>

text \<open>The dict literal of line 192, stored for an identifier seen for the first time.\<close>

definition new_track :: track where
  "new_track =
     \<lparr>gps_distance = Some 0, was_spoken = Some False, last_contact_timestamp = None,
      height = None, nspeed = None, vspeed = None, circradius = None, arcposition = None,
      direction = None, ac_x = None, ac_y = None, nspeed_length = None\<rparr>"

text \<open>
  Lines 195 to 203, on the aircraft dict \<open>ac\<close>: time stamp, relative height, speeds.
  \<open>now\<close> is the value of \<open>time.time()\<close>.
\<close>

definition traffic_common ::
  "real \<Rightarrow> real \<Rightarrow> traffic_msg \<Rightarrow> track \<Rightarrow> py_error option \<times> track" where
  "traffic_common now own_alt traffic ac =
     (case msg_Age traffic of None \<Rightarrow> (Some KeyError, ac) | Some age \<Rightarrow>
     (case msg_AgeLastAlt traffic of None \<Rightarrow> (Some KeyError, ac) | Some agelastalt \<Rightarrow>
     (let ac1 = ac\<lparr>last_contact_timestamp :=
                     Some (if age \<le> agelastalt then now - age else now - agelastalt)\<rparr>
      in case msg_Alt traffic of None \<Rightarrow> (Some KeyError, ac1) | Some alt \<Rightarrow>
     (let ac2 = ac1\<lparr>height := Some (py_round ((alt - own_alt) / 100))\<rparr>
      in case msg_Speed_valid traffic of None \<Rightarrow> (Some KeyError, ac2) | Some speed_valid \<Rightarrow>
     (case (if speed_valid
            then (case msg_Speed traffic of None \<Rightarrow> None
                  | Some speed \<Rightarrow> Some (ac2\<lparr>nspeed := Some speed\<rparr>))
            else Some ac2) of
        None \<Rightarrow> (Some KeyError, ac2)
      | Some ac3 \<Rightarrow>
     (case msg_Vvel traffic of None \<Rightarrow> (Some KeyError, ac3)
      | Some vvel \<Rightarrow> (None, ac3\<lparr>vspeed := Some vvel\<rparr>)))))))"

text \<open>
  Lines 212 to 242, once \<open>calc_gps_distance\<close> has returned \<open>gps_rad\<close> and \<open>gps_angle\<close>:
  the result is the error (if any), the aircraft dict and the texts spoken.
\<close>

definition adsb_place ::
  "world \<Rightarrow> traffic_msg \<Rightarrow> real \<Rightarrow> real \<Rightarrow> track \<Rightarrow> py_error option \<times> track \<times> string list" where
  "adsb_place w traffic gps_rad gps_angle ac1 =
     (let sit = situation w;
          ac2 = ac1\<lparr>gps_distance := Some gps_rad\<rparr>;
          ac3 = (case msg_Track traffic of None \<Rightarrow> ac2
                 | Some trk \<Rightarrow> ac2\<lparr>direction := Some (trk - real_of_int (course sit))\<rparr>)
      in case height ac3 of None \<Rightarrow> (Some KeyError, ac3, []) | Some h \<Rightarrow>
      if gps_rad \<le> RadarRange sit \<and> \<bar>real_of_int h\<bar> \<le> RadarLimits sit then
        (let res_angle = gps_angle - real_of_int (course sit);
             gpsx = sin (radians res_angle) * gps_rad;
             gpsy = - cos (radians res_angle) * gps_rad
         in if RadarRange sit = 0 then (Some ZeroDivisionError, ac3, []) else
         let ac4 = ac3\<lparr>ac_x := Some (py_round (max_pixel w / 2 * gpsx / RadarRange sit + zerox w))\<rparr>;
             ac5 = ac4\<lparr>ac_y := Some (py_round (max_pixel w / 2 * gpsy / RadarRange sit + zeroy w))\<rparr>;
             ac6 = (case nspeed ac5 of None \<Rightarrow> ac5
                    | Some ns \<Rightarrow>
                        let nspeed_rad = ns * SPEED_ARROW_TIME / 3600
                        in ac5\<lparr>nspeed_length :=
                                 Some (py_round (max_pixel w / 2 * nspeed_rad / RadarRange sit))\<rparr>)
         in if gps_rad \<le> RadarRange sit / 2 then
              (let oclock = oclock_of res_angle
               in case was_spoken ac6 of None \<Rightarrow> (Some KeyError, ac6, [])
                  | Some spoken \<Rightarrow>
                      if \<not> spoken
                      then (None, ac6\<lparr>was_spoken := Some True\<rparr>, [speaktraffic h (Some oclock)])
                      else (None, ac6, []))
            else if gps_rad \<ge> RadarRange sit * 0.75
                 then (None, ac6\<lparr>was_spoken := Some False\<rparr>, [])
                 else (None, ac6, []))
      else (None, ac3\<lparr>ac_x := Some (- 1), ac_y := Some (- 1)\<rparr>, []))"

text \<open>The ADS-B branch, lines 207 to 242.\<close>

definition traffic_adsb ::
  "world \<Rightarrow> traffic_msg \<Rightarrow> track \<Rightarrow> py_error option \<times> track \<times> string list" where
  "traffic_adsb w traffic ac0 =
     (let ac1 = (if circradius ac0 \<noteq> None then ac0\<lparr>circradius := None\<rparr> else ac0)
      in case msg_Lat traffic of None \<Rightarrow> (Some KeyError, ac1, []) | Some lat \<Rightarrow>
        (case msg_Lng traffic of None \<Rightarrow> (Some KeyError, ac1, []) | Some lng \<Rightarrow>
           adsb_place w traffic (fst (calc_gps_distance (situation w) lat lng))
             (snd (calc_gps_distance (situation w) lat lng)) ac1))"

text \<open>
  The Mode-S branch, lines 247 to 269: the result is the error (if any), the aircraft
  dict, the pointer \<open>last_arcposition\<close> and the texts spoken.
\<close>

definition traffic_modes ::
  "world \<Rightarrow> traffic_msg \<Rightarrow> bool \<Rightarrow> track \<Rightarrow> py_error option \<times> track \<times> int \<times> string list" where
  "traffic_modes w traffic is_new ac0 =
     (let sit = situation w; ptr = last_arcposition w
      in case msg_DistanceEstimated traffic of None \<Rightarrow> (Some KeyError, ac0, ptr, [])
         | Some dist_est \<Rightarrow>
      if dist_est = 0 then (None, ac0, ptr, []) else
     (case msg_Alt traffic of None \<Rightarrow> (Some KeyError, ac0, ptr, []) | Some alt \<Rightarrow>
      if alt = 0 then (None, ac0, ptr, []) else
      let distcirc = dist_est / 1852.0
      in if RadarRange sit = 0 then (Some ZeroDivisionError, ac0, ptr, []) else
      let distx = py_round (max_pixel w / 2 * distcirc / RadarRange sit);
          ptr1 = (if is_new \<or> circradius ac0 = None then next_arcposition ptr else ptr);
          ac1 = (if is_new \<or> circradius ac0 = None then ac0\<lparr>arcposition := Some ptr1\<rparr> else ac0);
          ac2 = ac1\<lparr>gps_distance := Some distcirc\<rparr>;
          ac3 = ac2\<lparr>circradius := Some distx\<rparr>
      in if distcirc \<le> RadarRange sit / 2 then
           (case was_spoken ac3 of None \<Rightarrow> (Some KeyError, ac3, ptr1, [])
            | Some spoken \<Rightarrow>
                if \<not> spoken
                then (case height ac3 of None \<Rightarrow> (Some KeyError, ac3, ptr1, [])
                      | Some h \<Rightarrow> (None, ac3\<lparr>was_spoken := Some True\<rparr>, ptr1, [speaktraffic h None]))
                else (None, ac3, ptr1, []))
         else if distcirc > RadarRange sit * 0.75
              then (None, ac3\<lparr>was_spoken := Some False\<rparr>, ptr1, [])
              else (None, ac3, ptr1, [])))"

text \<open>
  The range/limits control branch, lines 173 to 182.
\<close>

definition traffic_control :: "traffic_msg \<Rightarrow> world \<Rightarrow> py_error option \<times> world" where
  "traffic_control traffic w =
     (case msg_RadarRange traffic of None \<Rightarrow> (Some KeyError, w) | Some rr \<Rightarrow>
      let changed1 = (RadarRange (situation w) \<noteq> rr);
          w1 = (if changed1 then w\<lparr>situation := (situation w)\<lparr>RadarRange := rr\<rparr>\<rparr> else w)
      in (case msg_RadarLimits traffic of None \<Rightarrow> (Some KeyError, w1) | Some rl \<Rightarrow>
      let changed2 = (RadarLimits (situation w1) \<noteq> rl);
          w2 = (if changed2 then w1\<lparr>situation := (situation w1)\<lparr>RadarLimits := rl\<rparr>\<rparr> else w1)
      in (None, if changed1 \<or> changed2 then w2\<lparr>all_ac := []\<rparr> else w2)))"

text \<open>
  Lines 195 to 269 on the aircraft dict \<open>ac\<close>: the common part, then the ADS-B or the
  Mode-S branch.  The result is the error (if any), the aircraft dict, the pointer
  \<open>last_arcposition\<close> and the texts spoken.
\<close>

definition traffic_aircraft ::
  "real \<Rightarrow> world \<Rightarrow> traffic_msg \<Rightarrow> bool \<Rightarrow> track \<Rightarrow> py_error option \<times> track \<times> int \<times> string list" where
  "traffic_aircraft now w traffic is_new ac0 =
     (let r1 = traffic_common now (own_altitude (situation w)) traffic ac0
      in if fst r1 \<noteq> None then (fst r1, snd r1, last_arcposition w, []) else
        (case msg_Position_valid traffic of
           None \<Rightarrow> (Some KeyError, snd r1, last_arcposition w, [])
         | Some position_valid \<Rightarrow>
             if position_valid \<and> gps_active (situation w)
             then (let r2 = traffic_adsb w traffic (snd r1)
                   in (fst r2, fst (snd r2), last_arcposition w, snd (snd r2)))
             else traffic_modes w traffic is_new (snd r1)))"

text \<open>\<open>ac\<close> aliases the entry of \<open>all_ac\<close>: a write to \<open>ac\<close> is a write to the table.\<close>

definition store_ac :: "int \<Rightarrow> track \<Rightarrow> world \<Rightarrow> world" where
  "store_ac icao ac w = w\<lparr>all_ac := AList.update icao ac (all_ac w)\<rparr>"

text \<open>
  \<open>new_traffic\<close> (line 164) on the decoded message: the error raised (if any), the
  globals afterwards, and the texts handed to \<open>radarbluez.speak\<close>.
\<close>

definition new_traffic ::
  "real \<Rightarrow> traffic_msg \<Rightarrow> world \<Rightarrow> py_error option \<times> world \<times> string list" where
  "new_traffic now traffic w0 =
     (let w = w0\<lparr>aircraft_changed := True\<rparr>
      in if msg_RadarRange traffic \<noteq> None \<or> msg_RadarLimits traffic \<noteq> None
         then (fst (traffic_control traffic w), snd (traffic_control traffic w), [])
         else case msg_Icao_addr traffic of None \<Rightarrow> (None, w, []) | Some icao \<Rightarrow>
         let is_new = (map_of (all_ac w) icao = None);
             ac0 = (case map_of (all_ac w) icao of None \<Rightarrow> new_track | Some t \<Rightarrow> t);
             r = traffic_aircraft now w traffic is_new ac0
         in (fst r,
             (store_ac icao (fst (snd r)) w)\<lparr>last_arcposition := fst (snd (snd r))\<rparr>,
             snd (snd (snd r))))"

section \<open>Eviction: the cutoff sweep of \<open>display_and_cutoff\<close>\<close>

text \<open>The first loop, lines 404 to 408: \<open>to_delete\<close> and the flag \<open>aircraft_changed\<close>.\<close>

fun sweep_loop ::
  "real \<Rightarrow> (int \<times> track) list \<Rightarrow> int list \<Rightarrow> bool \<Rightarrow> py_error option \<times> int list \<times> bool" where
  "sweep_loop cutoff [] to_delete changed = (None, to_delete, changed)"
| "sweep_loop cutoff ((icao, ac) # rest) to_delete changed =
     (case last_contact_timestamp ac of
        None \<Rightarrow> (Some KeyError, to_delete, changed)
      | Some ts \<Rightarrow>
          if ts < cutoff then sweep_loop cutoff rest (to_delete @ [icao]) True
          else sweep_loop cutoff rest to_delete changed)"

text \<open>Lines 402 to 410; \<open>now\<close> is the value of \<open>time.time()\<close>.\<close>

definition cutoff_sweep :: "real \<Rightarrow> world \<Rightarrow> py_error option \<times> world" where
  "cutoff_sweep now w =
     (let cutoff = now - RADAR_CUTOFF;
          r = sweep_loop cutoff (all_ac w) [] (aircraft_changed w);
          w1 = w\<lparr>aircraft_changed := snd (snd r)\<rparr>
      in if fst r \<noteq> None then (fst r, w1)
         else (None, w1\<lparr>all_ac := fold AList.delete (fst (snd r)) (all_ac w1)\<rparr>))"

section \<open>Predicates on the track table\<close>

text \<open>A track is stale when its time stamp is strictly older than the cutoff (line 405).\<close>

definition stale :: "real \<Rightarrow> track \<Rightarrow> bool" where
  "stale cutoff ac =
     (case last_contact_timestamp ac of None \<Rightarrow> False | Some ts \<Rightarrow> ts < cutoff)"

text \<open>Every track of the table carries \<open>last_contact_timestamp\<close>.\<close>

definition all_stamped :: "world \<Rightarrow> bool" where
  "all_stamped w = list_all (\<lambda>p. last_contact_timestamp (snd p) \<noteq> None) (all_ac w)"

text \<open>\<open>present v\<close>: the key is in the dict.\<close>

fun present :: "'a option \<Rightarrow> bool" where
  "present None = False"
| "present (Some v) = True"

text \<open>The fields that the cutoff sweep, the sort and the alert policy read on every track.\<close>

definition complete_track :: "track \<Rightarrow> bool" where
  "complete_track ac =
     (present (gps_distance ac) \<and> present (was_spoken ac) \<and>
      present (last_contact_timestamp ac) \<and> present (height ac) \<and> present (vspeed ac))"

definition all_complete :: "world \<Rightarrow> bool" where
  "all_complete w = list_all (\<lambda>p. complete_track (snd p)) (all_ac w)"

text \<open>
  What holds of the classification fields of every track: the distance is there, the
  radius of a range-only track comes with its arc position, and \<open>x\<close> comes with \<open>y\<close>.
\<close>

definition class_ok :: "track \<Rightarrow> bool" where
  "class_ok ac =
     (present (gps_distance ac) \<and>
      (present (circradius ac) \<longrightarrow> present (arcposition ac)) \<and>
      (present (ac_x ac) = present (ac_y ac)))"

definition all_class_ok :: "world \<Rightarrow> bool" where
  "all_class_ok w = list_all (\<lambda>p. class_ok (snd p)) (all_ac w)"

text \<open>
  An arc position outside the excluded sector: in 0..359 and neither in 130..230 nor on
  its bounds (the test of line 256 is inclusive).  A track without \<open>arcposition\<close> has
  none to check.
\<close>

definition arc_free :: "track \<Rightarrow> bool" where
  "arc_free ac =
     (case arcposition ac of None \<Rightarrow> True
      | Some a \<Rightarrow> 0 \<le> a \<and> a < 360 \<and> (a < ARCPOSITION_EXCLUDE_FROM \<or> ARCPOSITION_EXCLUDE_TO < a))"

definition all_arc_free :: "world \<Rightarrow> bool" where
  "all_arc_free w = list_all (\<lambda>p. arc_free (snd p)) (all_ac w)"




section \<open>Runs of the traffic handler\<close>

text \<open>
  \<open>listen_forever\<close> (line 297) calls \<open>new_traffic\<close> on each message in arrival order; an
  exception of the callback ends the handler, so a run stops at the first error.  A
  run is a list of pairs of the clock value and the message.
\<close>





text \<open>The globals after the run.\<close>

fun feed :: "(real \<times> traffic_msg) list \<Rightarrow> world \<Rightarrow> world" where
  "feed [] w = w"
| "feed (e # es) w =
     (let r = new_traffic (fst e) (snd e) w
      in if fst r = None then feed es (fst (snd r)) else fst (snd r))"

section \<open>Sample data\<close>

text \<open>The initial \<open>situation\<close> of line 74, with a valid GPS fix at latitude and longitude 0.\<close>

definition sample_situation :: situation where
  "sample_situation =
     \<lparr>was_changed = True, connected = True, gps_active = True, course = 0, own_altitude = 0,
      latitude = 0, longitude = 0, RadarRange = 5, RadarLimits = 10000\<rparr>"

definition sample_world :: world where
  "sample_world =
     \<lparr>situation = sample_situation, all_ac = [], aircraft_changed = False, last_arcposition = 0,
      max_pixel = 200, zerox = 100, zeroy = 100\<rparr>"

text \<open>The empty JSON object.\<close>

definition no_keys :: traffic_msg where
  "no_keys =
     \<lparr>msg_RadarRange = None, msg_RadarLimits = None, msg_Icao_addr = None, msg_Age = None,
      msg_AgeLastAlt = None, msg_Alt = None, msg_Speed_valid = None, msg_Speed = None,
      msg_Vvel = None, msg_Position_valid = None, msg_Lat = None, msg_Lng = None,
      msg_Track = None, msg_DistanceEstimated = None\<rparr>"

text \<open>
  A Mode-S report about aircraft 1, 1000 ft above, at the estimated distance \<open>d\<close> (in
  metres).
\<close>

definition modes_report :: "real \<Rightarrow> traffic_msg" where
  "modes_report d =
     no_keys\<lparr>msg_Icao_addr := Some 1, msg_Age := Some 0, msg_AgeLastAlt := Some 0,
             msg_Alt := Some 1000, msg_Speed_valid := Some False, msg_Vvel := Some 0,
             msg_Position_valid := Some False, msg_DistanceEstimated := Some d\<rparr>"

text \<open>Two tracks last heard at times 100 and 120.\<close>

definition sweep_world :: world where
  "sweep_world =
     sample_world\<lparr>all_ac :=
       [(1, new_track\<lparr>last_contact_timestamp := Some 100\<rparr>),
        (2, new_track\<lparr>last_contact_timestamp := Some 120\<rparr>)]\<rparr>"

text \<open>The JSON object \<open>{"Icao_addr": 7}\<close>.\<close>

definition bad_report :: traffic_msg where
  "bad_report = no_keys\<lparr>msg_Icao_addr := Some 7\<rparr>"

text \<open>The pointer \<open>last_arcposition\<close> at 300: the next advance lands on 150.\<close>

definition pointer_300 :: world where
  "pointer_300 = sample_world\<lparr>last_arcposition := 300\<rparr>"

text \<open>The control messages \<open>{"RadarRange": 10}\<close> and \<open>{"RadarLimits": 5000}\<close>.\<close>

definition range_only :: traffic_msg where
  "range_only = no_keys\<lparr>msg_RadarRange := Some 10\<rparr>"

definition limits_only :: traffic_msg where
  "limits_only = no_keys\<lparr>msg_RadarLimits := Some 5000\<rparr>"

text \<open>The control message \<open>{"RadarRange": 10, "RadarLimits": 10000}\<close>.\<close>

definition range_change :: traffic_msg where
  "range_change = no_keys\<lparr>msg_RadarRange := Some 10, msg_RadarLimits := Some 10000\<rparr>"

text \<open>
  The globals after the Mode-S report of aircraft 1 at 1 nm (alert spoken), after its
  next report at 3 nm, and after the range change to 10 nm.
\<close>

definition heard_1 :: world where
  "heard_1 =
     sample_world\<lparr>aircraft_changed := True, last_arcposition := 60,
       all_ac := [(1, new_track\<lparr>gps_distance := Some 1, was_spoken := Some True,
                      last_contact_timestamp := Some 0, height := Some 10, vspeed := Some 0,
                      circradius := Some 20, arcposition := Some 60\<rparr>)]\<rparr>"

definition away_3 :: world where
  "away_3 =
     sample_world\<lparr>aircraft_changed := True, last_arcposition := 60,
       all_ac := [(1, new_track\<lparr>gps_distance := Some 3, was_spoken := Some True,
                      last_contact_timestamp := Some 1, height := Some 10, vspeed := Some 0,
                      circradius := Some 60, arcposition := Some 60\<rparr>)]\<rparr>"


text \<open>
  An ADS-B report about aircraft 1, 1000 ft above, at the position \<open>lat\<close>, \<open>lng\<close>, without
  the key \<open>Track\<close>.
\<close>

definition adsb_report :: "real \<Rightarrow> real \<Rightarrow> traffic_msg" where
  "adsb_report lat lng =
     no_keys\<lparr>msg_Icao_addr := Some 1, msg_Age := Some 0, msg_AgeLastAlt := Some 0,
             msg_Alt := Some 1000, msg_Speed_valid := Some False, msg_Vvel := Some 0,
             msg_Position_valid := Some True, msg_Lat := Some lat, msg_Lng := Some lng\<rparr>"

text \<open>
  The sample globals with own course 350, and after the range message that sets the
  configured range to 0.
\<close>

definition course_350 :: world where
  "course_350 = sample_world\<lparr>situation := sample_situation\<lparr>course := 350\<rparr>\<rparr>"

definition zero_range :: world where
  "zero_range =
     sample_world\<lparr>aircraft_changed := True,
       situation := sample_situation\<lparr>RadarRange := 0\<rparr>\<rparr>"

text \<open>The control message \<open>{"RadarRange": 0, "RadarLimits": 10000}\<close>.\<close>

definition range_zero :: traffic_msg where
  "range_zero = no_keys\<lparr>msg_RadarRange := Some 0, msg_RadarLimits := Some 10000\<rparr>"

section \<open>Properties\<close>

text \<open>The equations that evaluate \<open>new_traffic\<close> on the sample data.\<close>

lemmas ingest_defs =
  new_traffic_def traffic_aircraft_def traffic_common_def traffic_modes_def traffic_adsb_def
  adsb_place_def traffic_control_def store_ac_def py_round_def next_arcposition_def
  new_track_def speaktraffic_def str_int_def str_nat.simps oclock_of_def
  ARCPOSITION_EXCLUDE_FROM_def ARCPOSITION_EXCLUDE_TO_def SPEED_ARROW_TIME_def Let_def

lemmas sample_defs =
  sample_situation_def sample_world_def no_keys_def modes_report_def sweep_world_def
  bad_report_def range_only_def limits_only_def range_change_def

lemmas adsb_defs =
  adsb_report_def course_350_def calc_gps_distance_def radians_rel_def degrees_def radians_def

subsection \<open>Arc positions\<close>

lemma next_arcposition_range: "0 \<le> next_arcposition p \<and> next_arcposition p < 360"
  by (simp add: next_arcposition_def Let_def)

lemma readvance_mod:
  assumes "0 \<le> (p1::int)" "p1 < 360"
  shows "(p1 + 210) mod 360 = (if p1 < 150 then p1 + 210 else p1 - 150)"
proof (cases "p1 < 150")
  case True
  with assms show ?thesis by simp
next
  case False
  with assms have "(p1 - 150) mod 360 = p1 - 150" by simp
  moreover have "p1 + 210 = (p1 - 150) + 360" by simp
  then have "(p1 + 210) mod 360 = (p1 - 150) mod 360" by (simp only: mod_add_self2)
  ultimately show ?thesis using False by simp
qed

lemma next_arcposition_outside:
  "next_arcposition p < ARCPOSITION_EXCLUDE_FROM \<or> ARCPOSITION_EXCLUDE_TO < next_arcposition p"
proof -
  define p1 where "p1 = (p + 210) mod 360"
  have b: "0 \<le> p1" "p1 < 360" by (simp_all add: p1_def)
  show ?thesis
    using readvance_mod [OF b]
    by (auto simp: next_arcposition_def ARCPOSITION_EXCLUDE_FROM_def ARCPOSITION_EXCLUDE_TO_def
        Let_def p1_def [symmetric] split: if_splits)
qed

subsection \<open>Eviction\<close>

lemma sweep_loop_stamped:
  "list_all (\<lambda>p. last_contact_timestamp (snd p) \<noteq> None) xs \<Longrightarrow>
   sweep_loop c xs td ch =
     (None, td @ map fst (filter (\<lambda>p. stale c (snd p)) xs),
      ch \<or> list_ex (\<lambda>p. stale c (snd p)) xs)"
proof (induction xs arbitrary: td ch)
  case Nil
  then show ?case by simp
next
  case (Cons a xs)
  obtain icao ac where a: "a = (icao, ac)" by (cases a)
  from Cons.prems obtain ts where ts: "last_contact_timestamp ac = Some ts"
    by (auto simp: a)
  from Cons.prems have rest: "list_all (\<lambda>p. last_contact_timestamp (snd p) \<noteq> None) xs"
    by simp
  show ?case
    using Cons.IH [OF rest] by (simp add: a ts stale_def)
qed

lemma fold_delete_filter:
  "fold AList.delete ks al = filter (\<lambda>p. fst p \<notin> set ks) al"
proof (induction ks arbitrary: al)
  case Nil
  then show ?case by simp
next
  case (Cons k ks)
  have "AList.delete k al = filter (\<lambda>p. fst p \<noteq> k) al"
    by (simp add: AList.delete_eq case_prod_unfold neq_commute)
  then show ?case using Cons.IH by (auto intro: filter_cong)
qed

lemma stale_keys:
  assumes "distinct (map fst xs)" "p \<in> set xs"
  shows "fst p \<in> set (map fst (filter (\<lambda>p. stale c (snd p)) xs)) \<longleftrightarrow> stale c (snd p)"
proof
  assume "fst p \<in> set (map fst (filter (\<lambda>p. stale c (snd p)) xs))"
  then obtain q where q: "q \<in> set xs" "stale c (snd q)" "fst q = fst p" by auto
  from assms q have "q = p"
    by (metis eq_key_imp_eq_value prod.collapse)
  with q show "stale c (snd p)" by simp
next
  assume "stale c (snd p)"
  with assms show "fst p \<in> set (map fst (filter (\<lambda>p. stale c (snd p)) xs))" by auto
qed

text \<open>
  C7 (as amended).  On a table whose tracks all carry \<open>last_contact_timestamp\<close> (the keys
  of a dict are distinct), the sweep raises nothing, keeps exactly the tracks that are
  not strictly older than \<open>now - 29\<close>, each unchanged and in order, and sets
  \<open>aircraft_changed\<close> as soon as one track is removed; nothing else changes.  The
  condition on the table is needed: \<open>new_traffic\<close> stores a new track at line 192 before
  it reads \<open>Age\<close> at line 195, so a report without \<open>Age\<close> leaves a track without time stamp.
\<close>

theorem cutoff_sweep_evicts:
  assumes d: "distinct (map fst (all_ac w))" and st: "all_stamped w"
  shows "fst (cutoff_sweep now w) = None \<and>
         all_ac (snd (cutoff_sweep now w)) =
           filter (\<lambda>p. \<not> stale (now - 29) (snd p)) (all_ac w) \<and>
         aircraft_changed (snd (cutoff_sweep now w)) =
           (aircraft_changed w \<or> list_ex (\<lambda>p. stale (now - 29) (snd p)) (all_ac w)) \<and>
         situation (snd (cutoff_sweep now w)) = situation w \<and>
         last_arcposition (snd (cutoff_sweep now w)) = last_arcposition w"
proof -
  note sl = sweep_loop_stamped [OF st [unfolded all_stamped_def], of "now - 29" "[]"
      "aircraft_changed w"]
  have "all_ac (snd (cutoff_sweep now w)) =
     filter (\<lambda>p. fst p \<notin> set (map fst (filter (\<lambda>p. stale (now - 29) (snd p)) (all_ac w))))
       (all_ac w)"
    by (simp add: cutoff_sweep_def RADAR_CUTOFF_def Let_def sl fold_delete_filter)
  also have "\<dots> = filter (\<lambda>p. \<not> stale (now - 29) (snd p)) (all_ac w)"
  proof (rule filter_cong [OF refl])
    fix q assume "q \<in> set (all_ac w)"
    from stale_keys [OF d this]
    show "(fst q \<notin> set (map fst (filter (\<lambda>p. stale (now - 29) (snd p)) (all_ac w))))
            = (\<not> stale (now - 29) (snd q))"
      by blast
  qed
  finally have "all_ac (snd (cutoff_sweep now w)) =
      filter (\<lambda>p. \<not> stale (now - 29) (snd p)) (all_ac w)" .
  then show ?thesis
    by (simp add: cutoff_sweep_def RADAR_CUTOFF_def Let_def sl)
qed

theorem cutoff_sweep_evicts_witness:
  "distinct (map fst (all_ac sweep_world)) \<and> all_stamped sweep_world \<and>
   fst (cutoff_sweep 130 sweep_world) = None \<and>
   all_ac (snd (cutoff_sweep 130 sweep_world)) =
     [(2, new_track\<lparr>last_contact_timestamp := Some 120\<rparr>)] \<and>
   aircraft_changed (snd (cutoff_sweep 130 sweep_world))"
proof -
  have h1: "distinct (map fst (all_ac sweep_world))"
    by (simp add: sweep_world_def sample_world_def)
  have h2: "all_stamped sweep_world"
    by (simp add: all_stamped_def sweep_world_def sample_world_def new_track_def)
  show ?thesis
    using h1 h2 cutoff_sweep_evicts [OF h1 h2, of 130]
    by (simp add: sweep_world_def sample_world_def new_track_def stale_def)
qed

lemma bad_ingest:
  "new_traffic 125 bad_report sweep_world =
     (Some KeyError,
      sweep_world\<lparr>aircraft_changed := True,
        all_ac := [(1, new_track\<lparr>last_contact_timestamp := Some 100\<rparr>),
                   (2, new_track\<lparr>last_contact_timestamp := Some 120\<rparr>),
                   (7, new_track)]\<rparr>, [])"
  by (simp add: ingest_defs sample_defs)

text \<open>
  The sweep as C7 states it fails after the report \<open>{"Icao_addr": 7}\<close>: the ingest raises
  \<open>KeyError\<close> at line 195 with track 7 already stored, the sweep at time 130 raises
  \<open>KeyError\<close> at line 405 before the deletion loop, and track 1, last heard at 100 and
  older than the cutoff 101, stays in the table.
\<close>

theorem sweep_keeps_stale_track:
  "fst (new_traffic 125 bad_report sweep_world) = Some KeyError \<and>
   all_ac (fst (snd (new_traffic 125 bad_report sweep_world))) =
     [(1, new_track\<lparr>last_contact_timestamp := Some 100\<rparr>),
      (2, new_track\<lparr>last_contact_timestamp := Some 120\<rparr>), (7, new_track)] \<and>
   fst (cutoff_sweep 130 (fst (snd (new_traffic 125 bad_report sweep_world)))) = Some KeyError \<and>
   all_ac (snd (cutoff_sweep 130 (fst (snd (new_traffic 125 bad_report sweep_world))))) =
     [(1, new_track\<lparr>last_contact_timestamp := Some 100\<rparr>),
      (2, new_track\<lparr>last_contact_timestamp := Some 120\<rparr>), (7, new_track)] \<and>
   stale (130 - RADAR_CUTOFF) (new_track\<lparr>last_contact_timestamp := Some 100\<rparr>)"
  unfolding bad_ingest
  by (simp add: cutoff_sweep_def RADAR_CUTOFF_def Let_def stale_def new_track_def
      sweep_world_def sample_world_def)


subsection \<open>The common part\<close>

lemma traffic_common_frame:
  "gps_distance (snd (traffic_common now oa m ac)) = gps_distance ac \<and>
   was_spoken (snd (traffic_common now oa m ac)) = was_spoken ac \<and>
   circradius (snd (traffic_common now oa m ac)) = circradius ac \<and>
   arcposition (snd (traffic_common now oa m ac)) = arcposition ac \<and>
   direction (snd (traffic_common now oa m ac)) = direction ac \<and>
   ac_x (snd (traffic_common now oa m ac)) = ac_x ac \<and>
   ac_y (snd (traffic_common now oa m ac)) = ac_y ac \<and>
   nspeed_length (snd (traffic_common now oa m ac)) = nspeed_length ac"
  by (simp add: traffic_common_def Let_def split: option.splits)

lemma traffic_common_ok:
  "fst (traffic_common now oa m ac) = None \<longrightarrow>
   present (last_contact_timestamp (snd (traffic_common now oa m ac))) \<and>
   present (height (snd (traffic_common now oa m ac))) \<and>
   present (vspeed (snd (traffic_common now oa m ac)))"
  by (simp add: traffic_common_def Let_def split: option.splits)

subsection \<open>The ADS-B branch\<close>

lemma adsb_place_frame:
  "last_contact_timestamp (fst (snd (adsb_place w m r a ac))) = last_contact_timestamp ac \<and>
   height (fst (snd (adsb_place w m r a ac))) = height ac \<and>
   vspeed (fst (snd (adsb_place w m r a ac))) = vspeed ac \<and>
   nspeed (fst (snd (adsb_place w m r a ac))) = nspeed ac \<and>
   circradius (fst (snd (adsb_place w m r a ac))) = circradius ac \<and>
   arcposition (fst (snd (adsb_place w m r a ac))) = arcposition ac \<and>
   gps_distance (fst (snd (adsb_place w m r a ac))) = Some r"
  by (simp add: adsb_place_def Let_def split: option.splits)



lemma adsb_place_flag:
  "present (was_spoken ac) \<Longrightarrow> present (was_spoken (fst (snd (adsb_place w m r a ac))))"
  by (cases "was_spoken ac") (simp_all add: adsb_place_def Let_def split: option.splits)

lemma adsb_place_xy:
  "present (ac_x ac) = present (ac_y ac) \<Longrightarrow>
   present (ac_x (fst (snd (adsb_place w m r a ac)))) =
   present (ac_y (fst (snd (adsb_place w m r a ac))))"
  by (simp add: adsb_place_def Let_def split: option.splits)

lemma adsb_place_ok:
  "fst (adsb_place w m r a ac) = None \<longrightarrow>
   present (ac_x (fst (snd (adsb_place w m r a ac)))) \<and>
   present (ac_y (fst (snd (adsb_place w m r a ac))))"
  by (simp add: adsb_place_def Let_def split: option.splits)

subsection \<open>The Mode-S branch\<close>

lemma traffic_modes_frame:
  "last_contact_timestamp (fst (snd (traffic_modes w m n ac))) = last_contact_timestamp ac \<and>
   height (fst (snd (traffic_modes w m n ac))) = height ac \<and>
   vspeed (fst (snd (traffic_modes w m n ac))) = vspeed ac \<and>
   nspeed (fst (snd (traffic_modes w m n ac))) = nspeed ac \<and>
   direction (fst (snd (traffic_modes w m n ac))) = direction ac \<and>
   ac_x (fst (snd (traffic_modes w m n ac))) = ac_x ac \<and>
   ac_y (fst (snd (traffic_modes w m n ac))) = ac_y ac \<and>
   nspeed_length (fst (snd (traffic_modes w m n ac))) = nspeed_length ac"
  by (simp add: traffic_modes_def Let_def split: option.splits)



lemma traffic_modes_flag:
  "present (was_spoken ac) \<Longrightarrow> present (was_spoken (fst (snd (traffic_modes w m n ac))))"
  by (cases "was_spoken ac") (simp_all add: traffic_modes_def Let_def split: option.splits)

lemma traffic_modes_dist:
  "present (gps_distance ac) \<Longrightarrow> present (gps_distance (fst (snd (traffic_modes w m n ac))))"
  by (simp add: traffic_modes_def Let_def split: option.splits)

lemma traffic_modes_arc:
  "(present (circradius ac) \<longrightarrow> present (arcposition ac)) \<Longrightarrow>
   (present (circradius (fst (snd (traffic_modes w m n ac)))) \<longrightarrow>
    present (arcposition (fst (snd (traffic_modes w m n ac)))))"
  by (cases "circradius ac") (simp_all add: traffic_modes_def Let_def split: option.splits)

lemma traffic_modes_assigns:
  assumes "fst (traffic_modes w m n ac) = None"
    and "msg_DistanceEstimated m \<noteq> Some 0" "msg_Alt m \<noteq> Some 0"
    and "n \<or> circradius ac = None"
  shows "arcposition (fst (snd (traffic_modes w m n ac))) = Some (next_arcposition (last_arcposition w)) \<and>
         fst (snd (snd (traffic_modes w m n ac))) = next_arcposition (last_arcposition w)"
  using assms
  by (auto simp: traffic_modes_def Let_def split: option.splits if_splits)

lemma traffic_modes_keeps:
  assumes "\<not> n" "circradius ac = Some c"
  shows "arcposition (fst (snd (traffic_modes w m n ac))) = arcposition ac \<and>
         fst (snd (snd (traffic_modes w m n ac))) = last_arcposition w"
  using assms
  by (simp add: traffic_modes_def Let_def split: option.splits)

lemma traffic_modes_arc_step:
  "arcposition (fst (snd (traffic_modes w m n ac))) = arcposition ac \<and>
     fst (snd (snd (traffic_modes w m n ac))) = last_arcposition w \<or>
   arcposition (fst (snd (traffic_modes w m n ac))) = Some (next_arcposition (last_arcposition w)) \<and>
     fst (snd (snd (traffic_modes w m n ac))) = next_arcposition (last_arcposition w)"
  by (auto simp: traffic_modes_def Let_def split: option.splits if_splits)

lemma traffic_adsb_unfold:
  "traffic_adsb w m ac =
     (case msg_Lat m of None \<Rightarrow> (Some KeyError, ac\<lparr>circradius := None\<rparr>, [])
      | Some lat \<Rightarrow>
         (case msg_Lng m of None \<Rightarrow> (Some KeyError, ac\<lparr>circradius := None\<rparr>, [])
          | Some lng \<Rightarrow>
              adsb_place w m (fst (calc_gps_distance (situation w) lat lng))
                (snd (calc_gps_distance (situation w) lat lng)) (ac\<lparr>circradius := None\<rparr>)))"
proof -
  have eq: "(if circradius ac \<noteq> None then ac\<lparr>circradius := None\<rparr> else ac) = ac\<lparr>circradius := None\<rparr>"
    by (cases "circradius ac") simp_all
  show ?thesis
    by (simp only: traffic_adsb_def Let_def eq)
qed

lemma traffic_adsb_frame:
  "last_contact_timestamp (fst (snd (traffic_adsb w m ac))) = last_contact_timestamp ac \<and>
   height (fst (snd (traffic_adsb w m ac))) = height ac \<and>
   vspeed (fst (snd (traffic_adsb w m ac))) = vspeed ac \<and>
   nspeed (fst (snd (traffic_adsb w m ac))) = nspeed ac \<and>
   circradius (fst (snd (traffic_adsb w m ac))) = None \<and>
   arcposition (fst (snd (traffic_adsb w m ac))) = arcposition ac"
  by (simp add: traffic_adsb_unfold adsb_place_frame split: option.splits)

lemma traffic_adsb_dist:
  "present (gps_distance ac) \<Longrightarrow> present (gps_distance (fst (snd (traffic_adsb w m ac))))"
  by (simp add: traffic_adsb_unfold adsb_place_frame split: option.splits)



lemma traffic_adsb_flag:
  "present (was_spoken ac) \<Longrightarrow> present (was_spoken (fst (snd (traffic_adsb w m ac))))"
  using adsb_place_flag [of "ac\<lparr>circradius := None\<rparr>" w m]
  by (simp add: traffic_adsb_unfold split: option.splits)

lemma traffic_adsb_xy:
  "present (ac_x ac) = present (ac_y ac) \<Longrightarrow>
   present (ac_x (fst (snd (traffic_adsb w m ac)))) = present (ac_y (fst (snd (traffic_adsb w m ac))))"
  using adsb_place_xy [of "ac\<lparr>circradius := None\<rparr>" w m]
  by (simp add: traffic_adsb_unfold split: option.splits)

lemma traffic_adsb_ok:
  "fst (traffic_adsb w m ac) = None \<longrightarrow>
   present (ac_x (fst (snd (traffic_adsb w m ac)))) \<and>
   present (ac_y (fst (snd (traffic_adsb w m ac)))) \<and>
   present (gps_distance (fst (snd (traffic_adsb w m ac))))"
  using adsb_place_ok [of w m _ _ "ac\<lparr>circradius := None\<rparr>"]
  by (simp add: traffic_adsb_unfold adsb_place_frame split: option.splits)

subsection \<open>One aircraft report\<close>

lemma traffic_aircraft_cases:
  obtains
    (early) "traffic_aircraft now w m n ac =
       (fst (traffic_aircraft now w m n ac),
        snd (traffic_common now (own_altitude (situation w)) m ac), last_arcposition w, [])"
      "fst (traffic_aircraft now w m n ac) \<noteq> None"
  | (adsb) "fst (traffic_common now (own_altitude (situation w)) m ac) = None"
      "msg_Position_valid m = Some True" "gps_active (situation w)"
      "traffic_aircraft now w m n ac =
         (fst (traffic_adsb w m (snd (traffic_common now (own_altitude (situation w)) m ac))),
          fst (snd (traffic_adsb w m (snd (traffic_common now (own_altitude (situation w)) m ac)))),
          last_arcposition w,
          snd (snd (traffic_adsb w m (snd (traffic_common now (own_altitude (situation w)) m ac)))))"
  | (modes) pv where "fst (traffic_common now (own_altitude (situation w)) m ac) = None"
      "msg_Position_valid m = Some pv" "\<not> (pv \<and> gps_active (situation w))"
      "traffic_aircraft now w m n ac =
         traffic_modes w m n (snd (traffic_common now (own_altitude (situation w)) m ac))"
proof (cases "fst (traffic_common now (own_altitude (situation w)) m ac) = None")
  case False
  then show ?thesis
    by (intro early) (simp_all add: traffic_aircraft_def Let_def)
next
  case c: True
  show ?thesis
  proof (cases "msg_Position_valid m")
    case None
    with c show ?thesis
      by (intro early) (simp_all add: traffic_aircraft_def Let_def)
  next
    case (Some pv)
    show ?thesis
    proof (cases "pv \<and> gps_active (situation w)")
      case True
      with c Some show ?thesis
        by (intro adsb) (simp_all add: traffic_aircraft_def Let_def)
    next
      case False
      with c Some show ?thesis
        by (intro modes [of pv]) (auto simp: traffic_aircraft_def Let_def)
    qed
  qed
qed



lemma traffic_aircraft_complete:
  assumes "fst (traffic_aircraft now w m n ac) = None"
    and "present (gps_distance ac)" "present (was_spoken ac)"
  shows "complete_track (fst (snd (traffic_aircraft now w m n ac)))"
proof -
  let ?c = "snd (traffic_common now (own_altitude (situation w)) m ac)"
  have c: "present (gps_distance ?c)" "present (was_spoken ?c)"
    using assms by (simp_all add: traffic_common_frame)
  show ?thesis
  proof (cases rule: traffic_aircraft_cases [of now w m n ac])
    case early
    with assms show ?thesis by simp
  next
    case adsb
    with traffic_common_ok [of now "own_altitude (situation w)" m ac]
      traffic_adsb_frame [of w m ?c] traffic_adsb_dist [OF c(1), of w m]
      traffic_adsb_flag [OF c(2), of w m]
    show ?thesis by (simp add: complete_track_def)
  next
    case (modes pv)
    with traffic_common_ok [of now "own_altitude (situation w)" m ac]
      traffic_modes_frame [of w m n ?c] traffic_modes_dist [OF c(1), of w m n]
      traffic_modes_flag [OF c(2), of w m n]
    show ?thesis by (simp add: complete_track_def)
  qed
qed

lemma traffic_aircraft_class:
  assumes "class_ok ac"
  shows "class_ok (fst (snd (traffic_aircraft now w m n ac)))"
proof -
  let ?c = "snd (traffic_common now (own_altitude (situation w)) m ac)"
  have c: "class_ok ?c"
    using assms by (simp add: class_ok_def traffic_common_frame)
  show ?thesis
  proof (cases rule: traffic_aircraft_cases [of now w m n ac])
    case early
    have "fst (snd (traffic_aircraft now w m n ac)) = ?c"
      by (subst early(1), simp)
    with c show ?thesis by simp
  next
    case adsb
    with c traffic_adsb_frame [of w m ?c] traffic_adsb_dist [of ?c w m]
      traffic_adsb_xy [of ?c w m]
    show ?thesis by (simp add: class_ok_def)
  next
    case (modes pv)
    with c traffic_modes_frame [of w m n ?c] traffic_modes_dist [of ?c w m n]
      traffic_modes_arc [of ?c w m n]
    show ?thesis by (simp add: class_ok_def)
  qed
qed

lemma traffic_aircraft_arc_step:
  "arcposition (fst (snd (traffic_aircraft now w m n ac))) = arcposition ac \<and>
     fst (snd (snd (traffic_aircraft now w m n ac))) = last_arcposition w \<or>
   arcposition (fst (snd (traffic_aircraft now w m n ac))) = Some (next_arcposition (last_arcposition w)) \<and>
     fst (snd (snd (traffic_aircraft now w m n ac))) = next_arcposition (last_arcposition w)"
proof -
  let ?c = "snd (traffic_common now (own_altitude (situation w)) m ac)"
  have c: "arcposition ?c = arcposition ac" by (simp add: traffic_common_frame)
  show ?thesis
  proof (cases rule: traffic_aircraft_cases [of now w m n ac])
    case early
    have "fst (snd (traffic_aircraft now w m n ac)) = ?c"
      "fst (snd (snd (traffic_aircraft now w m n ac))) = last_arcposition w"
      by (subst early(1), simp)+
    with c show ?thesis by simp
  next
    case adsb
    with c traffic_adsb_frame [of w m ?c] show ?thesis by simp
  next
    case (modes pv)
    with c traffic_modes_arc_step [of w m n ?c] show ?thesis by simp
  qed
qed

lemma traffic_aircraft_assigns:
  assumes "fst (traffic_aircraft now w m n ac) = None"
    and "\<not> (msg_Position_valid m = Some True \<and> gps_active (situation w))"
    and "msg_DistanceEstimated m \<noteq> Some 0" "msg_Alt m \<noteq> Some 0"
    and "n \<or> circradius ac = None"
  shows "arcposition (fst (snd (traffic_aircraft now w m n ac))) = Some (next_arcposition (last_arcposition w)) \<and>
         fst (snd (snd (traffic_aircraft now w m n ac))) = next_arcposition (last_arcposition w)"
proof -
  let ?c = "snd (traffic_common now (own_altitude (situation w)) m ac)"
  have c: "n \<or> circradius ?c = None"
    using assms(5) by (simp add: traffic_common_frame)
  show ?thesis
  proof (cases rule: traffic_aircraft_cases [of now w m n ac])
    case early
    with assms show ?thesis by simp
  next
    case adsb
    with assms show ?thesis by simp
  next
    case (modes pv)
    from assms(1) modes(4) have "fst (traffic_modes w m n ?c) = None" by simp
    from traffic_modes_assigns [OF this assms(3,4) c] modes(4) show ?thesis by simp
  qed
qed

lemma traffic_aircraft_keeps:
  assumes "\<not> n" "circradius ac = Some c"
  shows "arcposition (fst (snd (traffic_aircraft now w m n ac))) = arcposition ac \<and>
         fst (snd (snd (traffic_aircraft now w m n ac))) = last_arcposition w"
proof -
  let ?c = "snd (traffic_common now (own_altitude (situation w)) m ac)"
  have c: "circradius ?c = Some c" "arcposition ?c = arcposition ac"
    using assms(2) by (simp_all add: traffic_common_frame)
  show ?thesis
  proof (cases rule: traffic_aircraft_cases [of now w m n ac])
    case early
    have "fst (snd (traffic_aircraft now w m n ac)) = ?c"
      "fst (snd (snd (traffic_aircraft now w m n ac))) = last_arcposition w"
      by (subst early(1), simp)+
    with c show ?thesis by simp
  next
    case adsb
    with c traffic_adsb_frame [of w m ?c] show ?thesis by simp
  next
    case (modes pv)
    with c traffic_modes_keeps [OF assms(1) c(1), of w m] show ?thesis by simp
  qed
qed

lemma traffic_aircraft_arc_free:
  "arc_free ac \<Longrightarrow> arc_free (fst (snd (traffic_aircraft now w m n ac)))"
  using traffic_aircraft_arc_step [of now w m n ac]
    next_arcposition_range [of "last_arcposition w"]
    next_arcposition_outside [of "last_arcposition w"]
  by (auto simp: arc_free_def)

subsection \<open>The track table\<close>

lemma traffic_adsb_flag_indep:
  "traffic_adsb (w\<lparr>aircraft_changed := b\<rparr>) m ac = traffic_adsb w m ac"
  by (simp add: traffic_adsb_def adsb_place_def Let_def cong: option.case_cong if_cong)

lemma traffic_modes_flag_indep:
  "traffic_modes (w\<lparr>aircraft_changed := b\<rparr>) m n ac = traffic_modes w m n ac"
  by (simp add: traffic_modes_def Let_def cong: option.case_cong if_cong)

lemma traffic_aircraft_flag_indep:
  "traffic_aircraft now (w\<lparr>aircraft_changed := b\<rparr>) m n ac = traffic_aircraft now w m n ac"
  by (simp add: traffic_aircraft_def traffic_adsb_flag_indep traffic_modes_flag_indep Let_def
      cong: option.case_cong if_cong)

lemma new_traffic_unfold:
  "new_traffic now m w =
     (if msg_RadarRange m \<noteq> None \<or> msg_RadarLimits m \<noteq> None
      then (fst (traffic_control m (w\<lparr>aircraft_changed := True\<rparr>)),
            snd (traffic_control m (w\<lparr>aircraft_changed := True\<rparr>)), [])
      else case msg_Icao_addr m of
             None \<Rightarrow> (None, w\<lparr>aircraft_changed := True\<rparr>, [])
           | Some icao \<Rightarrow>
               (let r = traffic_aircraft now w m (map_of (all_ac w) icao = None)
                          (case map_of (all_ac w) icao of None \<Rightarrow> new_track | Some t \<Rightarrow> t)
                in (fst r,
                    w\<lparr>aircraft_changed := True,
                       all_ac := AList.update icao (fst (snd r)) (all_ac w),
                       last_arcposition := fst (snd (snd r))\<rparr>,
                    snd (snd (snd r)))))"
  by (simp add: new_traffic_def store_ac_def Let_def traffic_aircraft_flag_indep
      split: option.splits)

lemma traffic_control_table:
  "all_ac (snd (traffic_control m w)) = all_ac w \<or> all_ac (snd (traffic_control m w)) = []"
  by (simp add: traffic_control_def Let_def split: option.splits)

lemma list_all_update:
  "list_all P al \<Longrightarrow> P (k, v) \<Longrightarrow> list_all P (AList.update k v al)"
  by (induction al) auto

lemma list_all_lookup:
  "list_all P al \<Longrightarrow> map_of al k = Some v \<Longrightarrow> P (k, v)"
  by (induction al) (auto split: if_splits)

text \<open>A property of single tracks that every aircraft report preserves holds of the table.\<close>

lemma new_traffic_list_all:
  assumes inv: "list_all (\<lambda>p. Q (snd p)) (all_ac w)"
    and new: "Q new_track"
    and step: "\<And>n ac. Q ac \<Longrightarrow> Q (fst (snd (traffic_aircraft now w m n ac)))"
  shows "list_all (\<lambda>p. Q (snd p)) (all_ac (fst (snd (new_traffic now m w))))"
proof (cases "msg_RadarRange m \<noteq> None \<or> msg_RadarLimits m \<noteq> None")
  case True
  with traffic_control_table [of m "w\<lparr>aircraft_changed := True\<rparr>"] inv show ?thesis
    by (auto simp: new_traffic_unfold)
next
  case False
  show ?thesis
  proof (cases "msg_Icao_addr m")
    case None
    with False inv show ?thesis by (simp add: new_traffic_unfold)
  next
    case (Some icao)
    let ?ac0 = "case map_of (all_ac w) icao of None \<Rightarrow> new_track | Some t \<Rightarrow> t"
    have "Q ?ac0"
      using new list_all_lookup [OF inv, of icao] by (auto split: option.splits)
    from step [OF this] list_all_update [OF inv] False Some show ?thesis
      by (simp add: new_traffic_unfold Let_def)
  qed
qed

lemma new_traffic_class_ok:
  "all_class_ok w \<Longrightarrow> all_class_ok (fst (snd (new_traffic now m w)))"
  unfolding all_class_ok_def
proof (rule new_traffic_list_all)
  show "class_ok new_track" by (simp add: class_ok_def new_track_def)
qed (simp_all add: traffic_aircraft_class)

lemma new_traffic_distinct:
  "distinct (map fst (all_ac w)) \<Longrightarrow> distinct (map fst (all_ac (fst (snd (new_traffic now m w)))))"
  using traffic_control_table [of m "w\<lparr>aircraft_changed := True\<rparr>"]
  by (auto simp: new_traffic_unfold Let_def distinct_update split: option.splits)

lemma new_traffic_complete:
  assumes inv: "all_complete w" and ok: "fst (new_traffic now m w) = None"
  shows "all_complete (fst (snd (new_traffic now m w)))"
proof (cases "msg_RadarRange m \<noteq> None \<or> msg_RadarLimits m \<noteq> None")
  case True
  with traffic_control_table [of m "w\<lparr>aircraft_changed := True\<rparr>"] inv show ?thesis
    by (auto simp: new_traffic_unfold all_complete_def)
next
  case False
  show ?thesis
  proof (cases "msg_Icao_addr m")
    case None
    with False inv show ?thesis by (simp add: new_traffic_unfold all_complete_def)
  next
    case (Some icao)
    let ?ac0 = "case map_of (all_ac w) icao of None \<Rightarrow> new_track | Some t \<Rightarrow> t"
    let ?r = "traffic_aircraft now w m (map_of (all_ac w) icao = None) ?ac0"
    have "present (gps_distance ?ac0) \<and> present (was_spoken ?ac0)"
      using list_all_lookup [OF inv [unfolded all_complete_def], of icao]
      by (auto simp: new_track_def complete_track_def split: option.splits)
    moreover have "fst ?r = None"
      using ok False Some by (simp add: new_traffic_unfold Let_def)
    ultimately have "complete_track (fst (snd ?r))"
      by (simp add: traffic_aircraft_complete)
    with list_all_update [OF inv [unfolded all_complete_def]] False Some show ?thesis
      by (simp add: new_traffic_unfold Let_def all_complete_def)
  qed
qed

subsection \<open>Sample runs\<close>



lemma first_report:
  "new_traffic 0 (modes_report 1852) sample_world = (None, heard_1, [''Traffic plus 1000 feet''])"
  by (simp add: ingest_defs sample_defs heard_1_def)

lemma second_report:
  "new_traffic 1 (modes_report 5556) heard_1 = (None, away_3, [])"
  by (simp add: ingest_defs sample_defs heard_1_def away_3_def)




subsection \<open>Range and limits messages\<close>

text \<open>
  C2.  The message \<open>{"RadarRange": 10}\<close> at range 5: line 174 sets the range to 10, line
  176 reads the absent key \<open>RadarLimits\<close> and raises \<open>KeyError\<close> before line 181, so the
  table is not emptied.  The message \<open>{"RadarLimits": 5000}\<close> raises at line 173 with
  nothing applied.
\<close>

theorem range_only_message_raises:
  "new_traffic 0 range_only sweep_world =
     (Some KeyError,
      sweep_world\<lparr>aircraft_changed := True,
        situation := sample_situation\<lparr>RadarRange := 10\<rparr>\<rparr>, []) \<and>
   RadarRange (situation sweep_world) = 5 \<and>
   all_ac sweep_world \<noteq> [] \<and>
   new_traffic 0 limits_only sweep_world =
     (Some KeyError, sweep_world\<lparr>aircraft_changed := True\<rparr>, [])"
  by (simp add: ingest_defs sample_defs)

theorem range_only_message_raises_witness:
  "fst (new_traffic 0 range_only sweep_world) = Some KeyError \<and>
   RadarRange (situation (fst (snd (new_traffic 0 range_only sweep_world)))) = 10 \<and>
   all_ac (fst (snd (new_traffic 0 range_only sweep_world))) = all_ac sweep_world \<and>
   fst (new_traffic 0 limits_only sweep_world) = Some KeyError"
  using range_only_message_raises by simp

subsection \<open>Arc-position assignment\<close>

lemma new_traffic_arc_free:
  "all_arc_free w \<Longrightarrow> all_arc_free (fst (snd (new_traffic now m w)))"
  unfolding all_arc_free_def
proof (rule new_traffic_list_all)
  show "arc_free new_track" by (simp add: arc_free_def new_track_def)
qed (simp_all add: traffic_aircraft_arc_free)

lemma feed_arc_free:
  "all_arc_free w \<Longrightarrow> all_arc_free (feed es w)"
proof (induction es arbitrary: w)
  case Nil
  then show ?case by simp
next
  case (Cons e es)
  from new_traffic_arc_free [OF Cons.prems, of "fst e" "snd e"] Cons.IH show ?case
    by (simp add: Let_def)
qed

lemma new_traffic_pointer:
  "last_arcposition (fst (snd (new_traffic now m w))) = last_arcposition w \<or>
   last_arcposition (fst (snd (new_traffic now m w))) = next_arcposition (last_arcposition w)"
proof (cases "msg_RadarRange m \<noteq> None \<or> msg_RadarLimits m \<noteq> None")
  case True
  then show ?thesis
    by (auto simp: new_traffic_unfold traffic_control_def Let_def split: option.splits)
next
  case False
  show ?thesis
  proof (cases "msg_Icao_addr m")
    case None
    with False show ?thesis by (simp add: new_traffic_unfold)
  next
    case (Some i)
    with False traffic_aircraft_arc_step [of now w m "map_of (all_ac w) i = None"
        "case map_of (all_ac w) i of None \<Rightarrow> new_track | Some t \<Rightarrow> t"]
    show ?thesis
      by (auto simp: new_traffic_unfold Let_def)
  qed
qed


lemma slot_report:
  "new_traffic 0 (modes_report 1852) pointer_300 =
     (None,
      pointer_300\<lparr>aircraft_changed := True, last_arcposition := 0,
        all_ac := [(1, new_track\<lparr>gps_distance := Some 1, was_spoken := Some True,
                      last_contact_timestamp := Some 0, height := Some 10, vspeed := Some 0,
                      circradius := Some 20, arcposition := Some 0\<rparr>)]\<rparr>,
      [''Traffic plus 1000 feet''])"
  by (simp add: ingest_defs sample_defs pointer_300_def)

lemma slot_report_again:
  "new_traffic 1 (modes_report 1852) (fst (snd (new_traffic 0 (modes_report 1852) pointer_300))) =
     (None,
      pointer_300\<lparr>aircraft_changed := True, last_arcposition := 0,
        all_ac := [(1, new_track\<lparr>gps_distance := Some 1, was_spoken := Some True,
                      last_contact_timestamp := Some 1, height := Some 10, vspeed := Some 0,
                      circradius := Some 20, arcposition := Some 0\<rparr>)]\<rparr>,
      [])"
  unfolding slot_report
  by (simp add: ingest_defs sample_defs pointer_300_def)

text \<open>
  C6.  A report that returns from the Mode-S branch past line 248 for a track that is
  new or carries no \<open>circradius\<close> (it was ADS-B before) stores the advanced pointer: the
  track's \<open>arcposition\<close> and the global \<open>last_arcposition\<close> are both
  \<open>next_arcposition\<close> of the old pointer.  A report for a track that carries \<open>circradius\<close>
  leaves the pointer and the track's \<open>arcposition\<close> as they are, and no message moves the
  pointer in any other way.  \<open>next_arcposition\<close> adds 210 modulo 360 and once more when
  the result is in the excluded sector (which the code takes closed, 130 to 230
  inclusive); its value is in 0..359 and outside the sector from every pointer, so one
  re-advance is enough, and over every run of messages every \<open>arcposition\<close> of the table
  stays outside the sector.
\<close>

theorem arcposition_assignment:
  "(fst (new_traffic now m w) = None \<and> msg_RadarRange m = None \<and> msg_RadarLimits m = None \<and>
    msg_Icao_addr m = Some i \<and>
    \<not> (msg_Position_valid m = Some True \<and> gps_active (situation w)) \<and>
    msg_DistanceEstimated m \<noteq> Some 0 \<and> msg_Alt m \<noteq> Some 0 \<and>
    (case map_of (all_ac w) i of None \<Rightarrow> True | Some t0 \<Rightarrow> circradius t0 = None) \<longrightarrow>
      last_arcposition (fst (snd (new_traffic now m w))) = next_arcposition (last_arcposition w) \<and>
      (case map_of (all_ac (fst (snd (new_traffic now m w)))) i of None \<Rightarrow> False
       | Some t' \<Rightarrow> arcposition t' = Some (next_arcposition (last_arcposition w)))) \<and>
   (msg_RadarRange m = None \<and> msg_RadarLimits m = None \<and> msg_Icao_addr m = Some i \<and>
    map_of (all_ac w) i = Some t \<and> circradius t = Some c \<longrightarrow>
      last_arcposition (fst (snd (new_traffic now m w))) = last_arcposition w \<and>
      (case map_of (all_ac (fst (snd (new_traffic now m w)))) i of None \<Rightarrow> False
       | Some t' \<Rightarrow> arcposition t' = arcposition t)) \<and>
   (last_arcposition (fst (snd (new_traffic now m w))) = last_arcposition w \<or>
    last_arcposition (fst (snd (new_traffic now m w))) = next_arcposition (last_arcposition w)) \<and>
   next_arcposition p =
     (if 130 \<le> (p + 210) mod 360 \<and> (p + 210) mod 360 \<le> 230
      then ((p + 210) mod 360 + 210) mod 360 else (p + 210) mod 360) \<and>
   0 \<le> next_arcposition p \<and> next_arcposition p < 360 \<and>
   (next_arcposition p < ARCPOSITION_EXCLUDE_FROM \<or> ARCPOSITION_EXCLUDE_TO < next_arcposition p) \<and>
   (all_arc_free w \<longrightarrow> all_arc_free (feed es w))"
proof -
  let ?w' = "fst (snd (new_traffic now m w))"
  let ?n = "map_of (all_ac w) i = None"
  let ?ac0 = "case map_of (all_ac w) i of None \<Rightarrow> new_track | Some t \<Rightarrow> t"
  let ?r = "traffic_aircraft now w m ?n ?ac0"
  have unf: "new_traffic now m w =
      (fst ?r,
       w\<lparr>aircraft_changed := True, all_ac := AList.update i (fst (snd ?r)) (all_ac w),
          last_arcposition := fst (snd (snd ?r))\<rparr>,
       snd (snd (snd ?r)))"
    if "msg_RadarRange m = None" "msg_RadarLimits m = None" "msg_Icao_addr m = Some i"
    using that by (simp add: new_traffic_unfold Let_def)
  have a: "last_arcposition ?w' = next_arcposition (last_arcposition w) \<and>
      (case map_of (all_ac ?w') i of None \<Rightarrow> False
       | Some t' \<Rightarrow> arcposition t' = Some (next_arcposition (last_arcposition w)))"
    if h: "fst (new_traffic now m w) = None" "msg_RadarRange m = None" "msg_RadarLimits m = None"
      "msg_Icao_addr m = Some i"
      "\<not> (msg_Position_valid m = Some True \<and> gps_active (situation w))"
      "msg_DistanceEstimated m \<noteq> Some 0" "msg_Alt m \<noteq> Some 0"
      "case map_of (all_ac w) i of None \<Rightarrow> True | Some t0 \<Rightarrow> circradius t0 = None"
  proof -
    note u = unf [OF h(2,3,4)]
    have ok: "fst ?r = None" using h(1) by (simp add: u)
    have nc: "?n \<or> circradius ?ac0 = None"
      using h(8) by (cases "map_of (all_ac w) i") simp_all
    from traffic_aircraft_assigns [OF ok h(5,6,7) nc] show ?thesis
      by (simp add: u update_conv')
  qed
  have b: "last_arcposition ?w' = last_arcposition w \<and>
      (case map_of (all_ac ?w') i of None \<Rightarrow> False | Some t' \<Rightarrow> arcposition t' = arcposition t)"
    if h: "msg_RadarRange m = None" "msg_RadarLimits m = None" "msg_Icao_addr m = Some i"
      "map_of (all_ac w) i = Some t" "circradius t = Some c"
  proof -
    note u = unf [OF h(1,2,3)]
    have n: "\<not> ?n" and ac: "?ac0 = t" using h(4) by simp_all
    from traffic_aircraft_keeps [OF n, of ?ac0 c now w m] h(5) show ?thesis
      by (simp add: u update_conv' ac h(4))
  qed
  have d: "next_arcposition p =
     (if 130 \<le> (p + 210) mod 360 \<and> (p + 210) mod 360 \<le> 230
      then ((p + 210) mod 360 + 210) mod 360 else (p + 210) mod 360)"
    by (auto simp: next_arcposition_def ARCPOSITION_EXCLUDE_FROM_def ARCPOSITION_EXCLUDE_TO_def
        Let_def)
  from a b new_traffic_pointer [of now m w] d next_arcposition_range [of p]
    next_arcposition_outside [of p] feed_arc_free [of w es]
  show ?thesis by blast
qed

theorem arcposition_assignment_witness:
  "last_arcposition pointer_300 = 300 \<and> map_of (all_ac pointer_300) 1 = None \<and>
   fst (new_traffic 0 (modes_report 1852) pointer_300) = None \<and>
   last_arcposition (fst (snd (new_traffic 0 (modes_report 1852) pointer_300))) = 0 \<and>
   map_option arcposition
     (map_of (all_ac (fst (snd (new_traffic 0 (modes_report 1852) pointer_300)))) 1) =
     Some (Some 0) \<and>
   map_option circradius
     (map_of (all_ac (fst (snd (new_traffic 0 (modes_report 1852) pointer_300)))) 1) =
     Some (Some 20) \<and>
   last_arcposition (fst (snd (new_traffic 1 (modes_report 1852)
     (fst (snd (new_traffic 0 (modes_report 1852) pointer_300)))))) = 0 \<and>
   next_arcposition 300 = 0 \<and>
   all_arc_free pointer_300 \<and>
   all_arc_free (feed [(0, modes_report 1852), (1, modes_report 1852)] pointer_300)"
proof -
  let ?w1 = "fst (snd (new_traffic 0 (modes_report 1852) pointer_300))"
  let ?t1 = "new_track\<lparr>gps_distance := Some 1, was_spoken := Some True,
                      last_contact_timestamp := Some 0, height := Some 10, vspeed := Some 0,
                      circradius := Some 20, arcposition := Some 0\<rparr>"
  have e0: "all_arc_free pointer_300" "map_of (all_ac pointer_300) 1 = None"
    "last_arcposition pointer_300 = 300"
    by (simp_all add: all_arc_free_def pointer_300_def sample_world_def)
  have m: "msg_RadarRange (modes_report 1852) = None" "msg_RadarLimits (modes_report 1852) = None"
    "msg_Icao_addr (modes_report 1852) = Some 1"
    "msg_Position_valid (modes_report 1852) = Some False"
    "msg_DistanceEstimated (modes_report 1852) = Some 1852"
    "msg_Alt (modes_report 1852) = Some 1000"
    by (simp_all add: modes_report_def no_keys_def)
  have n: "next_arcposition 300 = 0"
    by (simp add: next_arcposition_def ARCPOSITION_EXCLUDE_FROM_def ARCPOSITION_EXCLUDE_TO_def)
  have t1: "map_of (all_ac ?w1) 1 = Some ?t1" "circradius ?t1 = Some 20"
    "arcposition ?t1 = Some 0" "last_arcposition ?w1 = 0"
    by (simp_all add: slot_report new_track_def)
  have f: "feed [(0, modes_report 1852), (1, modes_report 1852)] pointer_300 =
      fst (snd (new_traffic 1 (modes_report 1852) ?w1))"
    by (simp add: Let_def slot_report slot_report_again [unfolded slot_report])
  show ?thesis
    using arcposition_assignment [of 0 "modes_report 1852" pointer_300 1 ?t1 20 300
        "[(0, modes_report 1852), (1, modes_report 1852)]"]
      arcposition_assignment [of 1 "modes_report 1852" ?w1 1 ?t1 20 300 "[]"]
    by (simp add: e0 m n t1 f slot_report)
qed

subsection \<open>Alert hysteresis\<close>













subsection \<open>Field completeness\<close>

lemma list_all_filter: "list_all P xs \<Longrightarrow> list_all P (filter Q xs)"
  by (induction xs) auto

lemma complete_stamped: "all_complete w \<Longrightarrow> all_stamped w"
  unfolding all_complete_def all_stamped_def
  by (induction "all_ac w" arbitrary: w)
     (auto simp: complete_track_def list_all_iff elim!: present.elims)

lemma cutoff_sweep_complete:
  assumes "all_complete w"
  shows "fst (cutoff_sweep t w) = None \<and> all_complete (snd (cutoff_sweep t w))"
proof -
  note sl = sweep_loop_stamped [OF complete_stamped [OF assms, unfolded all_stamped_def],
      of "t - 29" "[]" "aircraft_changed w"]
  from assms show ?thesis
    by (simp add: cutoff_sweep_def RADAR_CUTOFF_def Let_def sl fold_delete_filter
        all_complete_def list_all_filter)
qed

text \<open>
  C10 (as amended).  On a table whose tracks all carry \<open>gps_distance\<close>, \<open>was_spoken\<close>,
  \<open>last_contact_timestamp\<close>, \<open>height\<close> and \<open>vspeed\<close>, every ingest that returns without
  raising leaves such a table (a track it creates gets all five in that step), and the
  sweep raises no \<open>KeyError\<close> and leaves such a table.
\<close>

theorem field_completeness:
  assumes "all_complete w"
  shows "(fst (new_traffic now m w) = None \<longrightarrow> all_complete (fst (snd (new_traffic now m w)))) \<and>
         fst (cutoff_sweep t w) = None \<and> all_complete (snd (cutoff_sweep t w))"
  using new_traffic_complete [OF assms] cutoff_sweep_complete [OF assms] by blast

theorem field_completeness_witness:
  "all_complete heard_1 \<and>
   fst (new_traffic 1 (modes_report 5556) heard_1) = None \<and>
   all_complete (fst (snd (new_traffic 1 (modes_report 5556) heard_1))) \<and>
   fst (cutoff_sweep 30 heard_1) = None \<and>
   all_ac (snd (cutoff_sweep 30 heard_1)) = []"
proof -
  have c: "all_complete heard_1"
    by (simp add: all_complete_def complete_track_def heard_1_def new_track_def)
  have s: "all_ac (snd (cutoff_sweep 30 heard_1)) = []"
    by (simp add: cutoff_sweep_def RADAR_CUTOFF_def Let_def heard_1_def new_track_def
        AList.delete_eq)
  show ?thesis
    using field_completeness [OF c, of 1 "modes_report 5556" 30] c s
    by (simp add: second_report)
qed

text \<open>
  C10 as stated fails for an ingest that raises: the report \<open>{"Icao_addr": 7}\<close> stores
  the new track at line 192 and raises \<open>KeyError\<close> at line 195, so track 7 stays without
  \<open>last_contact_timestamp\<close>, \<open>height\<close> and \<open>vspeed\<close>, and the next sweep raises \<open>KeyError\<close>
  on it.
\<close>

theorem ingest_leaves_incomplete_track:
  "all_complete sample_world \<and>
   fst (new_traffic 0 bad_report sample_world) = Some KeyError \<and>
   all_ac (fst (snd (new_traffic 0 bad_report sample_world))) = [(7, new_track)] \<and>
   \<not> present (last_contact_timestamp new_track) \<and>
   \<not> all_complete (fst (snd (new_traffic 0 bad_report sample_world))) \<and>
   fst (cutoff_sweep 30 (fst (snd (new_traffic 0 bad_report sample_world)))) = Some KeyError"
proof -
  have e: "new_traffic 0 bad_report sample_world =
      (Some KeyError, sample_world\<lparr>aircraft_changed := True, all_ac := [(7, new_track)]\<rparr>, [])"
    by (simp add: ingest_defs sample_defs)
  show ?thesis
    unfolding e
    by (simp add: all_complete_def complete_track_def new_track_def sample_world_def
        cutoff_sweep_def Let_def)
qed

subsection \<open>Clock position\<close>

text \<open>
  C8.  Own course 350 and a target due north (latitude 0.01 against 0, same longitude,
  0.6 nm away): the bearing is 0, \<open>res_angle\<close> is -350, \<open>round(-350 / 30)\<close> is -12, line
  229 makes it 0 and line 230 leaves it, and \<open>speaktraffic\<close> tests \<open>if direction:\<close>, which
  is false for 0, so the alert is spoken without a clock position.  At course 0 the same
  target is announced at 12 o'clock.
\<close>

theorem due_north_alert_without_clock:
  "calc_gps_distance (situation course_350) (1 / 100) 0 = (2654587 * pi / 13890000, 0) \<and>
   course (situation course_350) = 350 \<and>
   oclock_of (0 - 350) = 0 \<and>
   snd (snd (new_traffic 0 (adsb_report (1 / 100) 0) course_350)) = [''Traffic plus 1000 feet''] \<and>
   speaktraffic 10 (Some 12) = ''Traffic 12 o'' @ [CHR 0x27] @ ''clock plus 1000 feet''"
proof -
  have "snd (snd (new_traffic 0 (adsb_report (1 / 100) 0) course_350)) =
      [''Traffic plus 1000 feet'']"
    using pi_less_4 pi_gt_zero by (simp add: ingest_defs sample_defs adsb_defs)
  moreover have "calc_gps_distance (situation course_350) (1 / 100) 0 =
      (2654587 * pi / 13890000, 0)"
    by (simp add: adsb_defs sample_defs Let_def)
  moreover have "oclock_of (0 - 350) = 0"
    by (simp add: oclock_of_def py_round_def Let_def)
  moreover have "speaktraffic 10 (Some 12) = ''Traffic 12 o'' @ [CHR 0x27] @ ''clock plus 1000 feet''"
    by (simp add: speaktraffic_def str_int_def str_nat.simps Let_def)
  ultimately show ?thesis
    by (simp add: course_350_def sample_situation_def)
qed

theorem due_north_alert_without_clock_witness:
  "snd (snd (new_traffic 0 (adsb_report (1 / 100) 0) course_350)) =
     [speaktraffic 10 (Some (oclock_of (0 - 350)))] \<and>
   speaktraffic 10 (Some (oclock_of (0 - 350))) = speaktraffic 10 None"
  using due_north_alert_without_clock by (simp add: speaktraffic_def str_int_def str_nat.simps)

subsection \<open>Early return of the Mode-S branch\<close>

lemma traffic_modes_early:
  assumes "msg_DistanceEstimated m = Some 0 \<or> msg_Alt m = Some 0"
    and "fst (traffic_modes w m n ac) = None"
  shows "traffic_modes w m n ac = (None, ac, last_arcposition w, [])"
  using assms
  by (auto simp: traffic_modes_def Let_def split: option.splits if_splits)

lemma new_traffic_aircraft:
  assumes "msg_RadarRange m = None" "msg_RadarLimits m = None" "msg_Icao_addr m = Some i"
  shows "new_traffic now m w =
      (fst (traffic_aircraft now w m (map_of (all_ac w) i = None)
              (case map_of (all_ac w) i of None \<Rightarrow> new_track | Some t \<Rightarrow> t)),
       w\<lparr>aircraft_changed := True,
          all_ac := AList.update i
            (fst (snd (traffic_aircraft now w m (map_of (all_ac w) i = None)
              (case map_of (all_ac w) i of None \<Rightarrow> new_track | Some t \<Rightarrow> t)))) (all_ac w),
          last_arcposition :=
            fst (snd (snd (traffic_aircraft now w m (map_of (all_ac w) i = None)
              (case map_of (all_ac w) i of None \<Rightarrow> new_track | Some t \<Rightarrow> t))))\<rparr>,
       snd (snd (snd (traffic_aircraft now w m (map_of (all_ac w) i = None)
              (case map_of (all_ac w) i of None \<Rightarrow> new_track | Some t \<Rightarrow> t)))))"
  using assms by (simp add: new_traffic_unfold Let_def)

lemma traffic_aircraft_early:
  assumes "fst (traffic_aircraft now w m n ac) = None"
    and "\<not> (msg_Position_valid m = Some True \<and> gps_active (situation w))"
    and "msg_DistanceEstimated m = Some 0 \<or> msg_Alt m = Some 0"
  shows "traffic_aircraft now w m n ac =
      (None, snd (traffic_common now (own_altitude (situation w)) m ac), last_arcposition w, [])"
proof (cases rule: traffic_aircraft_cases [of now w m n ac])
  case early
  with assms show ?thesis by simp
next
  case adsb
  with assms show ?thesis by simp
next
  case (modes pv)
  from assms(1) modes(4)
  have "fst (traffic_modes w m n (snd (traffic_common now (own_altitude (situation w)) m ac))) = None"
    by simp
  from traffic_modes_early [OF assms(3) this] modes(4) show ?thesis by simp
qed

text \<open>
  C5 (as amended).  A report that returns at line 248 (Mode-S branch, \<open>DistanceEstimated\<close>
  or \<open>Alt\<close> equal to 0) has run lines 190 to 203 before: the track of the identifier is
  stored, created by line 192 when it was not in the table, with the time stamp, the
  height and the speeds of the report.  Nothing else changes: no text is spoken, the
  pointer, the situation and the other tracks stay, and on the track itself
  \<open>gps_distance\<close>, \<open>was_spoken\<close>, \<open>circradius\<close>, \<open>arcposition\<close>, \<open>direction\<close>, \<open>x\<close>, \<open>y\<close> and
  \<open>nspeed_length\<close> are as before.
\<close>

theorem modes_early_return:
  assumes "msg_RadarRange m = None" "msg_RadarLimits m = None" "msg_Icao_addr m = Some i"
    and "fst (new_traffic now m w) = None"
    and "\<not> (msg_Position_valid m = Some True \<and> gps_active (situation w))"
    and "msg_DistanceEstimated m = Some 0 \<or> msg_Alt m = Some 0"
  shows "new_traffic now m w =
      (None,
       w\<lparr>aircraft_changed := True,
          all_ac := AList.update i
            (snd (traffic_common now (own_altitude (situation w)) m
               (case map_of (all_ac w) i of None \<Rightarrow> new_track | Some t \<Rightarrow> t))) (all_ac w)\<rparr>,
       []) \<and>
     gps_distance (snd (traffic_common now (own_altitude (situation w)) m ac)) = gps_distance ac \<and>
     was_spoken (snd (traffic_common now (own_altitude (situation w)) m ac)) = was_spoken ac \<and>
     circradius (snd (traffic_common now (own_altitude (situation w)) m ac)) = circradius ac \<and>
     arcposition (snd (traffic_common now (own_altitude (situation w)) m ac)) = arcposition ac \<and>
     direction (snd (traffic_common now (own_altitude (situation w)) m ac)) = direction ac \<and>
     ac_x (snd (traffic_common now (own_altitude (situation w)) m ac)) = ac_x ac \<and>
     ac_y (snd (traffic_common now (own_altitude (situation w)) m ac)) = ac_y ac \<and>
     nspeed_length (snd (traffic_common now (own_altitude (situation w)) m ac)) = nspeed_length ac"
proof -
  note u = new_traffic_aircraft [OF assms(1,2,3), of now w]
  have ok: "fst (traffic_aircraft now w m (map_of (all_ac w) i = None)
              (case map_of (all_ac w) i of None \<Rightarrow> new_track | Some t \<Rightarrow> t)) = None"
    using assms(4) by (simp add: u)
  have "new_traffic now m w =
      (None,
       w\<lparr>aircraft_changed := True,
          all_ac := AList.update i
            (snd (traffic_common now (own_altitude (situation w)) m
               (case map_of (all_ac w) i of None \<Rightarrow> new_track | Some t \<Rightarrow> t))) (all_ac w)\<rparr>,
       [])"
    by (simp add: u traffic_aircraft_early [OF ok assms(5,6)])
  with traffic_common_frame [of now "own_altitude (situation w)" m ac] show ?thesis
    by simp
qed

theorem modes_early_return_witness:
  "msg_RadarRange (modes_report 0) = None \<and> msg_RadarLimits (modes_report 0) = None \<and>
   msg_Icao_addr (modes_report 0) = Some 1 \<and>
   fst (new_traffic 5 (modes_report 0) heard_1) = None \<and>
   msg_Position_valid (modes_report 0) = Some False \<and>
   msg_DistanceEstimated (modes_report 0) = Some 0 \<and>
   new_traffic 5 (modes_report 0) heard_1 =
     (None,
      heard_1\<lparr>all_ac := [(1, new_track\<lparr>gps_distance := Some 1, was_spoken := Some True,
                      last_contact_timestamp := Some 5, height := Some 10, vspeed := Some 0,
                      circradius := Some 20, arcposition := Some 60\<rparr>)]\<rparr>, [])"
proof -
  have m: "msg_RadarRange (modes_report 0) = None" "msg_RadarLimits (modes_report 0) = None"
    "msg_Icao_addr (modes_report 0) = Some 1"
    "msg_Position_valid (modes_report 0) = Some False"
    "msg_DistanceEstimated (modes_report 0) = Some 0"
    by (simp_all add: modes_report_def no_keys_def)
  have e: "new_traffic 5 (modes_report 0) heard_1 =
     (None,
      heard_1\<lparr>all_ac := [(1, new_track\<lparr>gps_distance := Some 1, was_spoken := Some True,
                      last_contact_timestamp := Some 5, height := Some 10, vspeed := Some 0,
                      circradius := Some 20, arcposition := Some 60\<rparr>)]\<rparr>, [])"
    by (simp add: ingest_defs sample_defs heard_1_def)
  show ?thesis
    using modes_early_return [of "modes_report 0" 1 5 heard_1 new_track] m e
    by simp
qed


text \<open>
  C5 as stated fails: the Mode-S report with \<open>DistanceEstimated\<close> 0 about the unseen
  aircraft 1 creates its track, and the same report about a known aircraft moves its
  time stamp from 0 to 5.
\<close>

theorem early_return_creates_track:
  "all_ac sample_world = [] \<and>
   new_traffic 0 (modes_report 0) sample_world =
     (None,
      sample_world\<lparr>aircraft_changed := True,
        all_ac := [(1, new_track\<lparr>last_contact_timestamp := Some 0, height := Some 10,
                      vspeed := Some 0\<rparr>)]\<rparr>, []) \<and>
   new_traffic 0 (modes_report 1852) sample_world = (None, heard_1, [''Traffic plus 1000 feet'']) \<and>
   map_option last_contact_timestamp (map_of (all_ac heard_1) 1) = Some (Some 0) \<and>
   fst (new_traffic 5 (modes_report 0) heard_1) = None \<and>
   map_option last_contact_timestamp
     (map_of (all_ac (fst (snd (new_traffic 5 (modes_report 0) heard_1)))) 1) = Some (Some 5)"
proof -
  have "all_ac sample_world = [] \<and>
   new_traffic 0 (modes_report 0) sample_world =
     (None,
      sample_world\<lparr>aircraft_changed := True,
        all_ac := [(1, new_track\<lparr>last_contact_timestamp := Some 0, height := Some 10,
                      vspeed := Some 0\<rparr>)]\<rparr>, []) \<and>
   map_option last_contact_timestamp (map_of (all_ac heard_1) 1) = Some (Some 0) \<and>
   fst (new_traffic 5 (modes_report 0) heard_1) = None \<and>
   map_option last_contact_timestamp
     (map_of (all_ac (fst (snd (new_traffic 5 (modes_report 0) heard_1)))) 1) = Some (Some 5)"
    by (simp add: ingest_defs sample_defs heard_1_def)
  with first_report show ?thesis by simp
qed

subsection \<open>ADS-B update of a range-only track\<close>

lemma traffic_aircraft_adsb:
  assumes "fst (traffic_aircraft now w m n ac) = None"
    and "msg_Position_valid m = Some True" "gps_active (situation w)"
  shows "circradius (fst (snd (traffic_aircraft now w m n ac))) = None \<and>
         arcposition (fst (snd (traffic_aircraft now w m n ac))) = arcposition ac \<and>
         present (gps_distance (fst (snd (traffic_aircraft now w m n ac)))) \<and>
         present (ac_x (fst (snd (traffic_aircraft now w m n ac)))) \<and>
         present (ac_y (fst (snd (traffic_aircraft now w m n ac)))) \<and>
         fst (snd (snd (traffic_aircraft now w m n ac))) = last_arcposition w"
proof -
  let ?c = "snd (traffic_common now (own_altitude (situation w)) m ac)"
  have c: "arcposition ?c = arcposition ac" by (simp add: traffic_common_frame)
  show ?thesis
  proof (cases rule: traffic_aircraft_cases [of now w m n ac])
    case early
    with assms show ?thesis by simp
  next
    case adsb
    from assms(1) adsb(4) have "fst (traffic_adsb w m ?c) = None" by simp
    with traffic_adsb_ok [of w m ?c] traffic_adsb_frame [of w m ?c] c adsb(4)
    show ?thesis by simp
  next
    case (modes pv)
    with assms show ?thesis by simp
  qed
qed

text \<open>
  C4 (as amended).  A report with a valid position, own GPS valid, that returns without
  raising leaves the track without \<open>circradius\<close> (lines 208 and 209) and with
  \<open>gps_distance\<close>, \<open>x\<close> and \<open>y\<close>; the key \<open>arcposition\<close> is not deleted: the track keeps the
  arc position it had, and the pointer stays.
\<close>

theorem adsb_update_clears_circradius:
  assumes "msg_RadarRange m = None" "msg_RadarLimits m = None" "msg_Icao_addr m = Some i"
    and "fst (new_traffic now m w) = None"
    and "msg_Position_valid m = Some True" "gps_active (situation w)"
  shows "(case map_of (all_ac (fst (snd (new_traffic now m w)))) i of None \<Rightarrow> False
          | Some t' \<Rightarrow>
              circradius t' = None \<and>
              arcposition t' =
                (case map_of (all_ac w) i of None \<Rightarrow> None | Some t \<Rightarrow> arcposition t) \<and>
              present (gps_distance t') \<and> present (ac_x t') \<and> present (ac_y t')) \<and>
         last_arcposition (fst (snd (new_traffic now m w))) = last_arcposition w"
proof -
  note u = new_traffic_aircraft [OF assms(1,2,3), of now w]
  let ?ac0 = "case map_of (all_ac w) i of None \<Rightarrow> new_track | Some t \<Rightarrow> t"
  have ok: "fst (traffic_aircraft now w m (map_of (all_ac w) i = None) ?ac0) = None"
    using assms(4) by (simp add: u)
  have a: "arcposition ?ac0 = (case map_of (all_ac w) i of None \<Rightarrow> None | Some t \<Rightarrow> arcposition t)"
    by (simp add: new_track_def split: option.splits)
  from traffic_aircraft_adsb [OF ok assms(5,6)] a show ?thesis
    by (simp add: u update_conv')
qed

theorem adsb_update_clears_circradius_witness:
  "msg_RadarRange (adsb_report (1 / 100) 0) = None \<and>
   msg_RadarLimits (adsb_report (1 / 100) 0) = None \<and>
   msg_Icao_addr (adsb_report (1 / 100) 0) = Some 1 \<and>
   fst (new_traffic 1 (adsb_report (1 / 100) 0) heard_1) = None \<and>
   msg_Position_valid (adsb_report (1 / 100) 0) = Some True \<and>
   gps_active (situation heard_1) \<and>
   map_option circradius (map_of (all_ac heard_1) 1) = Some (Some 20) \<and>
   map_option circradius
     (map_of (all_ac (fst (snd (new_traffic 1 (adsb_report (1 / 100) 0) heard_1)))) 1) =
     Some None \<and>
   last_arcposition (fst (snd (new_traffic 1 (adsb_report (1 / 100) 0) heard_1))) = 60"
proof -
  have m: "msg_RadarRange (adsb_report (1 / 100) 0) = None"
    "msg_RadarLimits (adsb_report (1 / 100) 0) = None"
    "msg_Icao_addr (adsb_report (1 / 100) 0) = Some 1"
    "msg_Position_valid (adsb_report (1 / 100) 0) = Some True"
    by (simp_all add: adsb_report_def no_keys_def)
  have w: "gps_active (situation heard_1)" "last_arcposition heard_1 = 60"
    "map_option circradius (map_of (all_ac heard_1) 1) = Some (Some 20)"
    by (simp_all add: heard_1_def sample_world_def sample_situation_def new_track_def)
  have ok: "fst (new_traffic 1 (adsb_report (1 / 100) 0) heard_1) = None"
    using pi_less_4 pi_gt_zero
    by (simp add: ingest_defs sample_defs adsb_defs heard_1_def)
  show ?thesis
    using adsb_update_clears_circradius [OF m(1,2,3) ok m(4) w(1)] m w ok
    by (auto split: option.splits)
qed

text \<open>
  C4 as stated fails: the track of aircraft 1, heard on the Mode-S branch with
  \<open>circradius\<close> 20 and \<open>arcposition\<close> 60, loses \<open>circradius\<close> by the ADS-B report and keeps
  \<open>arcposition\<close> 60.
\<close>

theorem adsb_update_keeps_arcposition:
  "new_traffic 0 (modes_report 1852) sample_world = (None, heard_1, [''Traffic plus 1000 feet'']) \<and>
   map_option circradius (map_of (all_ac heard_1) 1) = Some (Some 20) \<and>
   map_option arcposition (map_of (all_ac heard_1) 1) = Some (Some 60) \<and>
   fst (new_traffic 1 (adsb_report (1 / 100) 0) heard_1) = None \<and>
   map_option circradius
     (map_of (all_ac (fst (snd (new_traffic 1 (adsb_report (1 / 100) 0) heard_1)))) 1) =
     Some None \<and>
   map_option arcposition
     (map_of (all_ac (fst (snd (new_traffic 1 (adsb_report (1 / 100) 0) heard_1)))) 1) =
     Some (Some 60)"
proof -
  have "map_option circradius (map_of (all_ac heard_1) 1) = Some (Some 20) \<and>
   map_option arcposition (map_of (all_ac heard_1) 1) = Some (Some 60) \<and>
   fst (new_traffic 1 (adsb_report (1 / 100) 0) heard_1) = None \<and>
   map_option circradius
     (map_of (all_ac (fst (snd (new_traffic 1 (adsb_report (1 / 100) 0) heard_1)))) 1) =
     Some None \<and>
   map_option arcposition
     (map_of (all_ac (fst (snd (new_traffic 1 (adsb_report (1 / 100) 0) heard_1)))) 1) =
     Some (Some 60)"
    using pi_less_4 pi_gt_zero
    by (simp add: ingest_defs sample_defs adsb_defs heard_1_def)
  with first_report show ?thesis by simp
qed

subsection \<open>Classification of tracks\<close>

lemma traffic_modes_circ:
  assumes "fst (traffic_modes w m n ac) = None"
    and "msg_DistanceEstimated m \<noteq> Some 0" "msg_Alt m \<noteq> Some 0"
  shows "present (circradius (fst (snd (traffic_modes w m n ac))))"
  using assms
  by (auto simp: traffic_modes_def Let_def split: option.splits if_splits)

lemma traffic_aircraft_modes:
  assumes "fst (traffic_aircraft now w m n ac) = None"
    and "\<not> (msg_Position_valid m = Some True \<and> gps_active (situation w))"
    and "msg_DistanceEstimated m \<noteq> Some 0" "msg_Alt m \<noteq> Some 0"
  shows "present (circradius (fst (snd (traffic_aircraft now w m n ac)))) \<and>
         direction (fst (snd (traffic_aircraft now w m n ac))) = direction ac \<and>
         ac_x (fst (snd (traffic_aircraft now w m n ac))) = ac_x ac \<and>
         ac_y (fst (snd (traffic_aircraft now w m n ac))) = ac_y ac"
proof -
  let ?c = "snd (traffic_common now (own_altitude (situation w)) m ac)"
  show ?thesis
  proof (cases rule: traffic_aircraft_cases [of now w m n ac])
    case early
    with assms show ?thesis by simp
  next
    case adsb
    with assms show ?thesis by simp
  next
    case (modes pv)
    from assms(1) modes(4) have "fst (traffic_modes w m n ?c) = None" by simp
    from traffic_modes_circ [OF this assms(3,4)] traffic_modes_frame [of w m n ?c]
      traffic_common_frame [of now "own_altitude (situation w)" m ac] modes(4)
    show ?thesis by simp
  qed
qed

lemma feed_class_ok:
  "all_class_ok w \<Longrightarrow> all_class_ok (feed es w)"
proof (induction es arbitrary: w)
  case Nil
  then show ?case by simp
next
  case (Cons e es)
  from new_traffic_class_ok [OF Cons.prems, of "fst e" "snd e"] Cons.IH show ?case
    by (simp add: Let_def)
qed

text \<open>
  C3 (as amended).  What every ingest preserves, over every run: each track carries
  \<open>gps_distance\<close>, a track that carries \<open>circradius\<close> carries \<open>arcposition\<close>, and \<open>x\<close> and \<open>y\<close>
  are present together.  The two classifications are not exclusive: a Mode-S update of
  a known track that returns past line 248 sets \<open>circradius\<close> and leaves \<open>x\<close>, \<open>y\<close> and
  \<open>direction\<close> as they were.
\<close>

theorem classification_invariant:
  "(all_class_ok w \<longrightarrow>
      all_class_ok (fst (snd (new_traffic now m w))) \<and> all_class_ok (feed es w)) \<and>
   (msg_RadarRange m = None \<and> msg_RadarLimits m = None \<and> msg_Icao_addr m = Some i \<and>
    fst (new_traffic now m w) = None \<and>
    \<not> (msg_Position_valid m = Some True \<and> gps_active (situation w)) \<and>
    msg_DistanceEstimated m \<noteq> Some 0 \<and> msg_Alt m \<noteq> Some 0 \<and>
    map_of (all_ac w) i = Some t \<longrightarrow>
      (case map_of (all_ac (fst (snd (new_traffic now m w)))) i of None \<Rightarrow> False
       | Some t' \<Rightarrow>
           present (circradius t') \<and> direction t' = direction t \<and>
           ac_x t' = ac_x t \<and> ac_y t' = ac_y t))"
proof -
  have b: "case map_of (all_ac (fst (snd (new_traffic now m w)))) i of None \<Rightarrow> False
       | Some t' \<Rightarrow>
           present (circradius t') \<and> direction t' = direction t \<and>
           ac_x t' = ac_x t \<and> ac_y t' = ac_y t"
    if h: "msg_RadarRange m = None" "msg_RadarLimits m = None" "msg_Icao_addr m = Some i"
      "fst (new_traffic now m w) = None"
      "\<not> (msg_Position_valid m = Some True \<and> gps_active (situation w))"
      "msg_DistanceEstimated m \<noteq> Some 0" "msg_Alt m \<noteq> Some 0"
      "map_of (all_ac w) i = Some t"
  proof -
    note u = new_traffic_aircraft [OF h(1,2,3), of now w]
    have ok: "fst (traffic_aircraft now w m (map_of (all_ac w) i = None)
        (case map_of (all_ac w) i of None \<Rightarrow> new_track | Some t \<Rightarrow> t)) = None"
      using h(4) by (simp add: u)
    from traffic_aircraft_modes [OF ok h(5,6,7)] h(8) show ?thesis
      by (simp add: u update_conv')
  qed
  from b new_traffic_class_ok [of w now m] feed_class_ok [of w es] show ?thesis
    by blast
qed

theorem classification_invariant_witness:
  "all_class_ok sample_world \<and>
   all_class_ok (feed [(0, adsb_report (1 / 100) 0), (1, modes_report 1852)] sample_world) \<and>
   fst (new_traffic 1 (modes_report 1852)
     (fst (snd (new_traffic 0 (adsb_report (1 / 100) 0) sample_world)))) = None \<and>
   map_option ac_x
     (map_of (all_ac (fst (snd (new_traffic 0 (adsb_report (1 / 100) 0) sample_world)))) 1) =
     Some (Some 100) \<and>
   map_option ac_x
     (map_of (all_ac (fst (snd (new_traffic 1 (modes_report 1852)
        (fst (snd (new_traffic 0 (adsb_report (1 / 100) 0) sample_world))))))) 1) =
     Some (Some 100) \<and>
   map_option (\<lambda>t. present (circradius t))
     (map_of (all_ac (fst (snd (new_traffic 1 (modes_report 1852)
        (fst (snd (new_traffic 0 (adsb_report (1 / 100) 0) sample_world))))))) 1) =
     Some True"
proof -
  let ?w1 = "fst (snd (new_traffic 0 (adsb_report (1 / 100) 0) sample_world))"
  have c: "all_class_ok sample_world"
    by (simp add: all_class_ok_def sample_world_def)
  have m: "msg_RadarRange (modes_report 1852) = None" "msg_RadarLimits (modes_report 1852) = None"
    "msg_Icao_addr (modes_report 1852) = Some 1"
    "msg_Position_valid (modes_report 1852) = Some False"
    "msg_DistanceEstimated (modes_report 1852) = Some 1852"
    "msg_Alt (modes_report 1852) = Some 1000"
    by (simp_all add: modes_report_def no_keys_def)
  obtain t where t: "map_of (all_ac ?w1) 1 = Some t" "ac_x t = Some 100"
    using pi_less_4 pi_gt_zero
    by (simp add: ingest_defs sample_defs adsb_defs)
  have ok: "fst (new_traffic 1 (modes_report 1852) ?w1) = None"
    using pi_less_4 pi_gt_zero
    by (simp add: ingest_defs sample_defs adsb_defs)
  show ?thesis
    using classification_invariant [of sample_world 0 "adsb_report (1 / 100) 0"
        "[(0, adsb_report (1 / 100) 0), (1, modes_report 1852)]" 1 t]
      classification_invariant [of ?w1 1 "modes_report 1852" "[]" 1 t]
      c m t ok
    by (auto split: option.splits)
qed


text \<open>
  C3 as stated fails: after an ADS-B report and a Mode-S report about aircraft 1 the
  track carries \<open>x\<close> 100 together with \<open>circradius\<close> 20 and \<open>arcposition\<close> 60.
\<close>

theorem modes_update_keeps_position:
  "fst (new_traffic 0 (adsb_report (1 / 100) 0) sample_world) = None \<and>
   map_option ac_x
     (map_of (all_ac (fst (snd (new_traffic 0 (adsb_report (1 / 100) 0) sample_world)))) 1) =
     Some (Some 100) \<and>
   fst (new_traffic 1 (modes_report 1852)
     (fst (snd (new_traffic 0 (adsb_report (1 / 100) 0) sample_world)))) = None \<and>
   map_option ac_x
     (map_of (all_ac (fst (snd (new_traffic 1 (modes_report 1852)
        (fst (snd (new_traffic 0 (adsb_report (1 / 100) 0) sample_world))))))) 1) =
     Some (Some 100) \<and>
   map_option circradius
     (map_of (all_ac (fst (snd (new_traffic 1 (modes_report 1852)
        (fst (snd (new_traffic 0 (adsb_report (1 / 100) 0) sample_world))))))) 1) =
     Some (Some 20) \<and>
   map_option arcposition
     (map_of (all_ac (fst (snd (new_traffic 1 (modes_report 1852)
        (fst (snd (new_traffic 0 (adsb_report (1 / 100) 0) sample_world))))))) 1) =
     Some (Some 60)"
  using pi_less_4 pi_gt_zero
  by (simp add: ingest_defs sample_defs adsb_defs)

subsection \<open>Screen coordinates\<close>

lemma py_round_near: "\<bar>real_of_int (py_round v) - v\<bar> \<le> 1 / 2"
proof -
  have "real_of_int \<lfloor>v\<rfloor> \<le> v" "v < real_of_int \<lfloor>v\<rfloor> + 1" by linarith+
  then show ?thesis
    by (auto simp: py_round_def Let_def)
qed

lemma sqrt_perturb:
  fixes X Y e1 e2 :: real
  assumes "\<bar>e1\<bar> \<le> 1 / 2" "\<bar>e2\<bar> \<le> 1 / 2"
  shows "\<bar>sqrt ((X + e1)\<^sup>2 + (Y + e2)\<^sup>2) - sqrt (X\<^sup>2 + Y\<^sup>2)\<bar> \<le> sqrt 2 / 2"
proof -
  have "e1\<^sup>2 \<le> (1 / 2)\<^sup>2" "e2\<^sup>2 \<le> (1 / 2)\<^sup>2"
    using assms by (simp_all add: abs_le_square_iff [symmetric])
  then have "e1\<^sup>2 + e2\<^sup>2 \<le> 1 / 2" by (simp add: power2_eq_square)
  then have "sqrt (e1\<^sup>2 + e2\<^sup>2) \<le> sqrt (1 / 2)" by (rule real_sqrt_le_mono)
  also have "sqrt (1 / 2) = sqrt 2 / 2"
    by (simp add: real_sqrt_divide real_div_sqrt)
  finally have E: "sqrt (e1\<^sup>2 + e2\<^sup>2) \<le> sqrt 2 / 2" .
  have 1: "sqrt ((X + e1)\<^sup>2 + (Y + e2)\<^sup>2) \<le> sqrt (X\<^sup>2 + Y\<^sup>2) + sqrt (e1\<^sup>2 + e2\<^sup>2)"
    by (rule real_sqrt_sum_squares_triangle_ineq)
  have "sqrt (((X + e1) + (- e1))\<^sup>2 + ((Y + e2) + (- e2))\<^sup>2) \<le>
      sqrt ((X + e1)\<^sup>2 + (Y + e2)\<^sup>2) + sqrt ((- e1)\<^sup>2 + (- e2)\<^sup>2)"
    by (rule real_sqrt_sum_squares_triangle_ineq)
  then have 2: "sqrt (X\<^sup>2 + Y\<^sup>2) \<le> sqrt ((X + e1)\<^sup>2 + (Y + e2)\<^sup>2) + sqrt (e1\<^sup>2 + e2\<^sup>2)"
    by simp
  from 1 2 E show ?thesis by linarith
qed

lemma polar_norm:
  fixes k r th :: real
  shows "sqrt ((k * (sin th * r))\<^sup>2 + (k * (- cos th * r))\<^sup>2) = \<bar>k * r\<bar>"
proof -
  have "(k * (sin th * r))\<^sup>2 + (k * (- cos th * r))\<^sup>2 =
      (k * r)\<^sup>2 * (sin th)\<^sup>2 + (k * r)\<^sup>2 * (cos th)\<^sup>2"
    by (simp add: power_mult_distrib mult_ac)
  also have "\<dots> = (k * r)\<^sup>2 * ((sin th)\<^sup>2 + (cos th)\<^sup>2)"
    by (simp only: distrib_left)
  also have "\<dots> = (k * r)\<^sup>2" by simp
  finally show ?thesis by simp
qed

lemma pixel_distance:
  fixes k r th zx zy :: real
  shows "\<bar>sqrt ((real_of_int (py_round (k * (sin th * r) + zx)) - zx)\<^sup>2 +
               (real_of_int (py_round (k * (- cos th * r) + zy)) - zy)\<^sup>2) - \<bar>k * r\<bar>\<bar>
         \<le> sqrt 2 / 2"
proof -
  define X where "X = k * (sin th * r)"
  define Y where "Y = k * (- cos th * r)"
  define e1 where "e1 = real_of_int (py_round (X + zx)) - (X + zx)"
  define e2 where "e2 = real_of_int (py_round (Y + zy)) - (Y + zy)"
  have e: "\<bar>e1\<bar> \<le> 1 / 2" "\<bar>e2\<bar> \<le> 1 / 2"
    unfolding e1_def e2_def by (rule py_round_near)+
  have x: "real_of_int (py_round (X + zx)) - zx = X + e1"
    and y: "real_of_int (py_round (Y + zy)) - zy = Y + e2"
    by (simp_all add: e1_def e2_def)
  from sqrt_perturb [OF e, of X Y] polar_norm [of k th r] show ?thesis
    by (simp only: x y X_def [symmetric] Y_def [symmetric])
qed


lemma traffic_common_height:
  "fst (traffic_common now oa m ac) = None \<and> msg_Alt m = Some alt \<longrightarrow>
   height (snd (traffic_common now oa m ac)) = Some (py_round ((alt - oa) / 100))"
  by (simp add: traffic_common_def Let_def split: option.splits)

lemma adsb_place_coords:
  assumes "fst (adsb_place w m r a ac) = None" "height ac = Some h"
    and "r \<le> RadarRange (situation w)" "\<bar>real_of_int h\<bar> \<le> RadarLimits (situation w)"
  shows "ac_x (fst (snd (adsb_place w m r a ac))) =
           Some (py_round (max_pixel w / 2 *
             (sin (radians (a - real_of_int (course (situation w)))) * r) /
             RadarRange (situation w) + zerox w)) \<and>
         ac_y (fst (snd (adsb_place w m r a ac))) =
           Some (py_round (max_pixel w / 2 *
             (- cos (radians (a - real_of_int (course (situation w)))) * r) /
             RadarRange (situation w) + zeroy w)) \<and>
         gps_distance (fst (snd (adsb_place w m r a ac))) = Some r \<and>
         RadarRange (situation w) \<noteq> 0"
  using assms
  by (auto simp: adsb_place_def Let_def split: option.splits if_splits)

lemma traffic_aircraft_coords:
  assumes ok: "fst (traffic_aircraft now w m n ac) = None"
    and pv: "msg_Position_valid m = Some True" "gps_active (situation w)"
    and pos: "msg_Lat m = Some lat" "msg_Lng m = Some lng" and alt: "msg_Alt m = Some alt"
    and rng: "fst (calc_gps_distance (situation w) lat lng) \<le> RadarRange (situation w)"
    and lim: "\<bar>real_of_int (py_round ((alt - own_altitude (situation w)) / 100))\<bar>
               \<le> RadarLimits (situation w)"
  shows "ac_x (fst (snd (traffic_aircraft now w m n ac))) =
           Some (py_round (max_pixel w / 2 *
             (sin (radians (snd (calc_gps_distance (situation w) lat lng) -
                            real_of_int (course (situation w)))) *
              fst (calc_gps_distance (situation w) lat lng)) /
             RadarRange (situation w) + zerox w)) \<and>
         ac_y (fst (snd (traffic_aircraft now w m n ac))) =
           Some (py_round (max_pixel w / 2 *
             (- cos (radians (snd (calc_gps_distance (situation w) lat lng) -
                              real_of_int (course (situation w)))) *
              fst (calc_gps_distance (situation w) lat lng)) /
             RadarRange (situation w) + zeroy w)) \<and>
         gps_distance (fst (snd (traffic_aircraft now w m n ac))) =
           Some (fst (calc_gps_distance (situation w) lat lng)) \<and>
         RadarRange (situation w) \<noteq> 0"
proof -
  let ?c = "snd (traffic_common now (own_altitude (situation w)) m ac)"
  let ?r = "fst (calc_gps_distance (situation w) lat lng)"
  let ?a = "snd (calc_gps_distance (situation w) lat lng)"
  show ?thesis
  proof (cases rule: traffic_aircraft_cases [of now w m n ac])
    case early
    with ok show ?thesis by simp
  next
    case adsb
    have e: "traffic_adsb w m ?c = adsb_place w m ?r ?a (?c\<lparr>circradius := None\<rparr>)"
      by (simp add: traffic_adsb_unfold pos)
    from ok adsb(4) have o: "fst (adsb_place w m ?r ?a (?c\<lparr>circradius := None\<rparr>)) = None"
      by (simp add: e)
    have h: "height (?c\<lparr>circradius := None\<rparr>) =
        Some (py_round ((alt - own_altitude (situation w)) / 100))"
      using traffic_common_height [of now "own_altitude (situation w)" m ac alt] adsb(1) alt
      by simp
    from adsb_place_coords [OF o h rng lim] adsb(4) show ?thesis
      by (simp add: e)
  next
    case (modes pv')
    with pv show ?thesis by simp
  qed
qed

text \<open>
  C9 (as amended, over the reals).  For a report with a valid position, own GPS valid,
  within the range and the altitude limit, that returns without raising, the range is
  not 0, the stored \<open>gps_distance\<close> is the distance of \<open>calc_gps_distance\<close>, the stored \<open>x\<close>
  and \<open>y\<close> are the rounded projections of lines 218 to 221, functions of own course, own
  position, target position, range and the display constants, and the distance from
  \<open>(x, y)\<close> to \<open>(zerox, zeroy)\<close> differs from \<open>max_pixel / 2 * gps_distance / RadarRange\<close> in
  absolute value by at most \<open>sqrt 2 / 2\<close>, the error of rounding both coordinates.
\<close>

theorem screen_distance:
  assumes "msg_RadarRange m = None" "msg_RadarLimits m = None" "msg_Icao_addr m = Some i"
    and "fst (new_traffic now m w) = None"
    and "msg_Position_valid m = Some True" "gps_active (situation w)"
    and "msg_Lat m = Some lat" "msg_Lng m = Some lng" "msg_Alt m = Some alt"
    and "fst (calc_gps_distance (situation w) lat lng) \<le> RadarRange (situation w)"
    and "\<bar>real_of_int (py_round ((alt - own_altitude (situation w)) / 100))\<bar>
           \<le> RadarLimits (situation w)"
  shows "\<exists>t x y.
           map_of (all_ac (fst (snd (new_traffic now m w)))) i = Some t \<and>
           gps_distance t = Some (fst (calc_gps_distance (situation w) lat lng)) \<and>
           ac_x t = Some x \<and> ac_y t = Some y \<and>
           x = py_round (max_pixel w / 2 *
                 (sin (radians (snd (calc_gps_distance (situation w) lat lng) -
                                real_of_int (course (situation w)))) *
                  fst (calc_gps_distance (situation w) lat lng)) /
                 RadarRange (situation w) + zerox w) \<and>
           y = py_round (max_pixel w / 2 *
                 (- cos (radians (snd (calc_gps_distance (situation w) lat lng) -
                                  real_of_int (course (situation w)))) *
                  fst (calc_gps_distance (situation w) lat lng)) /
                 RadarRange (situation w) + zeroy w) \<and>
           RadarRange (situation w) \<noteq> 0 \<and>
           \<bar>sqrt ((real_of_int x - zerox w)\<^sup>2 + (real_of_int y - zeroy w)\<^sup>2) -
            \<bar>max_pixel w / 2 * fst (calc_gps_distance (situation w) lat lng) /
               RadarRange (situation w)\<bar>\<bar> \<le> sqrt 2 / 2"
proof -
  note u = new_traffic_aircraft [OF assms(1,2,3), of now w]
  let ?ac0 = "case map_of (all_ac w) i of None \<Rightarrow> new_track | Some t \<Rightarrow> t"
  let ?r = "fst (calc_gps_distance (situation w) lat lng)"
  let ?th = "radians (snd (calc_gps_distance (situation w) lat lng) -
                      real_of_int (course (situation w)))"
  let ?k = "max_pixel w / 2 / RadarRange (situation w)"
  have ok: "fst (traffic_aircraft now w m (map_of (all_ac w) i = None) ?ac0) = None"
    using assms(4) by (simp add: u)
  note c = traffic_aircraft_coords [OF ok assms(5,6,7,8,9,10,11)]
  have k1: "max_pixel w / 2 * (sin ?th * ?r) / RadarRange (situation w) = ?k * (sin ?th * ?r)"
    and k2: "max_pixel w / 2 * (- cos ?th * ?r) / RadarRange (situation w) = ?k * (- cos ?th * ?r)"
    and k3: "max_pixel w / 2 * ?r / RadarRange (situation w) = ?k * ?r"
    by simp_all
  have d: "\<bar>sqrt ((real_of_int (py_round (max_pixel w / 2 * (sin ?th * ?r) /
                     RadarRange (situation w) + zerox w)) - zerox w)\<^sup>2 +
                  (real_of_int (py_round (max_pixel w / 2 * (- cos ?th * ?r) /
                     RadarRange (situation w) + zeroy w)) - zeroy w)\<^sup>2) -
            \<bar>max_pixel w / 2 * ?r / RadarRange (situation w)\<bar>\<bar> \<le> sqrt 2 / 2"
    unfolding k1 k2 k3 by (rule pixel_distance)
  from c d show ?thesis
    by (simp add: u update_conv')
qed

theorem screen_distance_witness:
  "msg_RadarRange (adsb_report (1 / 100) 0) = None \<and>
   msg_RadarLimits (adsb_report (1 / 100) 0) = None \<and>
   msg_Icao_addr (adsb_report (1 / 100) 0) = Some 1 \<and>
   fst (new_traffic 0 (adsb_report (1 / 100) 0) sample_world) = None \<and>
   msg_Position_valid (adsb_report (1 / 100) 0) = Some True \<and>
   gps_active (situation sample_world) \<and>
   msg_Lat (adsb_report (1 / 100) 0) = Some (1 / 100) \<and>
   msg_Lng (adsb_report (1 / 100) 0) = Some 0 \<and>
   msg_Alt (adsb_report (1 / 100) 0) = Some 1000 \<and>
   fst (calc_gps_distance (situation sample_world) (1 / 100) 0) \<le>
     RadarRange (situation sample_world) \<and>
   \<bar>real_of_int (py_round ((1000 - own_altitude (situation sample_world)) / 100))\<bar>
     \<le> RadarLimits (situation sample_world) \<and>
   map_option ac_x
     (map_of (all_ac (fst (snd (new_traffic 0 (adsb_report (1 / 100) 0) sample_world)))) 1) =
     Some (Some 100)"
proof -
  have m: "msg_RadarRange (adsb_report (1 / 100) 0) = None"
    "msg_RadarLimits (adsb_report (1 / 100) 0) = None"
    "msg_Icao_addr (adsb_report (1 / 100) 0) = Some 1"
    "msg_Position_valid (adsb_report (1 / 100) 0) = Some True"
    "msg_Lat (adsb_report (1 / 100) 0) = Some (1 / 100)"
    "msg_Lng (adsb_report (1 / 100) 0) = Some 0"
    "msg_Alt (adsb_report (1 / 100) 0) = Some 1000"
    by (simp_all add: adsb_report_def no_keys_def)
  have g: "gps_active (situation sample_world)"
    by (simp add: sample_world_def sample_situation_def)
  have ok: "fst (new_traffic 0 (adsb_report (1 / 100) 0) sample_world) = None"
    using pi_less_4 pi_gt_zero by (simp add: ingest_defs sample_defs adsb_defs)
  have r: "fst (calc_gps_distance (situation sample_world) (1 / 100) 0) \<le>
      RadarRange (situation sample_world)"
    using pi_less_4 pi_gt_zero by (simp add: sample_defs adsb_defs Let_def)
  have l: "\<bar>real_of_int (py_round ((1000 - own_altitude (situation sample_world)) / 100))\<bar>
      \<le> RadarLimits (situation sample_world)"
    by (simp add: sample_defs py_round_def Let_def)
  have x: "map_option ac_x
     (map_of (all_ac (fst (snd (new_traffic 0 (adsb_report (1 / 100) 0) sample_world)))) 1) =
     Some (Some 100)"
    using pi_less_4 pi_gt_zero by (simp add: ingest_defs sample_defs adsb_defs)
  show ?thesis
    using screen_distance [OF m(1,2,3) ok m(4) g m(5,6,7) r l] m g ok r l x
    by simp
qed


text \<open>
  C9 as stated fails at the configured range 0, which a range message sets: a target
  at the own position is within the range, line 220 divides by the range and raises
  \<open>ZeroDivisionError\<close>, and the track is left without \<open>x\<close> and \<open>y\<close>.
\<close>

theorem division_by_zero_range:
  "new_traffic 0 range_zero sample_world = (None, zero_range, []) \<and>
   RadarRange (situation zero_range) = 0 \<and>
   calc_gps_distance (situation zero_range) 0 0 = (0, 0) \<and>
   fst (new_traffic 1 (adsb_report 0 0) zero_range) = Some ZeroDivisionError \<and>
   map_option ac_x (map_of (all_ac (fst (snd (new_traffic 1 (adsb_report 0 0) zero_range)))) 1) =
     Some None"
proof -
  have "new_traffic 0 range_zero sample_world = (None, zero_range, [])"
    by (simp add: ingest_defs sample_defs range_zero_def zero_range_def)
  moreover have "RadarRange (situation zero_range) = 0 \<and>
   calc_gps_distance (situation zero_range) 0 0 = (0, 0) \<and>
   fst (new_traffic 1 (adsb_report 0 0) zero_range) = Some ZeroDivisionError \<and>
   map_option ac_x (map_of (all_ac (fst (snd (new_traffic 1 (adsb_report 0 0) zero_range)))) 1) =
     Some None"
    by (simp add: ingest_defs sample_defs adsb_defs zero_range_def)
  ultimately show ?thesis by simp
qed

end
